theory Spec2Isabelle
  imports Main "HOL-Library.Sublist" "HOL-Library.Multiset"
begin

section \<open>Go strings as byte lists\<close>

text \<open>
  A Go \<^verbatim>\<open>string\<close> is a sequence of bytes; \<^typ>\<open>string\<close> (a list of 8-bit characters)
  models it byte for byte. The functions of package \<^verbatim>\<open>strings\<close> that the analyzer calls
  are written out below. \<^verbatim>\<open>strings.ToLower\<close>, \<^verbatim>\<open>strings.ToUpper\<close> and
  \<^verbatim>\<open>strings.TrimSpace\<close> have an ASCII path, which is modelled exactly, and a path
  through the Unicode tables of the Go runtime for arguments holding a byte \<open>\<ge> 0x80\<close>.
  The tables are not part of the repository: that path is a parameter of the model
  (record \<open>unicode\<close>), and every theorem holds for every value of it.
\<close>

record unicode =
  MapToLower :: "string \<Rightarrow> string"
  MapToUpper :: "string \<Rightarrow> string"
  TrimFuncIsSpace :: "string \<Rightarrow> string"
  TrimRightFuncIsSpace :: "string \<Rightarrow> string"

definition isASCIIByte :: "char \<Rightarrow> bool" where
  "isASCIIByte c = (of_char c < (128::nat))"

definition isUpperByte :: "char \<Rightarrow> bool" where
  "isUpperByte c = ((65::nat) \<le> of_char c \<and> of_char c \<le> (90::nat))"

definition isLowerByte :: "char \<Rightarrow> bool" where
  "isLowerByte c = ((97::nat) \<le> of_char c \<and> of_char c \<le> (122::nat))"

text \<open>In ASCII a letter changes case by its bit 5 (value 32).\<close>

fun lowerByte :: "char \<Rightarrow> char" where
  "lowerByte (Char b0 b1 b2 b3 b4 b5 b6 b7) =
     (if isUpperByte (Char b0 b1 b2 b3 b4 b5 b6 b7) then Char b0 b1 b2 b3 b4 True b6 b7
      else Char b0 b1 b2 b3 b4 b5 b6 b7)"

fun upperByte :: "char \<Rightarrow> char" where
  "upperByte (Char b0 b1 b2 b3 b4 b5 b6 b7) =
     (if isLowerByte (Char b0 b1 b2 b3 b4 b5 b6 b7) then Char b0 b1 b2 b3 b4 False b6 b7
      else Char b0 b1 b2 b3 b4 b5 b6 b7)"

definition ToLower :: "unicode \<Rightarrow> string \<Rightarrow> string" where
  "ToLower U s = (if list_all isASCIIByte s then map lowerByte s else MapToLower U s)"

definition ToUpper :: "unicode \<Rightarrow> string \<Rightarrow> string" where
  "ToUpper U s = (if list_all isASCIIByte s then map upperByte s else MapToUpper U s)"

text \<open>\<^verbatim>\<open>strings.Contains(s, substr)\<close>: \<open>substr\<close> occurs in \<open>s\<close> as a block of bytes.\<close>

fun Contains :: "string \<Rightarrow> string \<Rightarrow> bool" where
  "Contains [] substr = (substr = [])"
| "Contains (c # s) substr = (prefix substr (c # s) \<or> Contains s substr)"

text \<open>The table \<^verbatim>\<open>asciiSpace\<close> of package strings: tab, LF, VT, FF, CR, space.\<close>

definition asciiSpace :: "char \<Rightarrow> bool" where
  "asciiSpace c = (c = CHR 0x09 \<or> c = CHR 0x0A \<or> c = CHR 0x0B \<or> c = CHR 0x0C
                   \<or> c = CHR 0x0D \<or> c = CHR 0x20)"

text \<open>
  \<^verbatim>\<open>strings.TrimSpace\<close> scans ASCII white space from the left; at a byte \<open>\<ge> 0x80\<close> it hands
  the rest to \<^verbatim>\<open>TrimFunc(_, unicode.IsSpace)\<close>. Then it scans from the right in the same
  way, handing over to \<^verbatim>\<open>TrimRightFunc\<close>.
\<close>

definition trimRightSpace :: "unicode \<Rightarrow> string \<Rightarrow> string" where
  "trimRightSpace U s =
     (case dropWhile asciiSpace (rev s) of
        [] \<Rightarrow> []
      | c # r \<Rightarrow> if isASCIIByte c then rev (c # r) else TrimRightFuncIsSpace U (rev (c # r)))"

definition TrimSpace :: "unicode \<Rightarrow> string \<Rightarrow> string" where
  "TrimSpace U s =
     (case dropWhile asciiSpace s of
        [] \<Rightarrow> []
      | c # r \<Rightarrow> if isASCIIByte c then trimRightSpace U (c # r) else TrimFuncIsSpace U (c # r))"

section \<open>The four regular expressions of package constants\<close>

text \<open>
  Each pattern is anchored at the start of the text and made of ASCII literals, the class
  \<^verbatim>\<open>\s\<close> (in Go's syntax: tab, LF, FF, CR, space) and \<^verbatim>\<open>[^>]\<close> or \<^verbatim>\<open>.\<close>, so it is
  matched here by a scan over the bytes. Under \<^verbatim>\<open>(?i)\<close> a literal letter matches both of
  its cases.
\<close>

definition reSpace :: "char \<Rightarrow> bool" where
  "reSpace c = (c = CHR 0x09 \<or> c = CHR 0x0A \<or> c = CHR 0x0C \<or> c = CHR 0x0D \<or> c = CHR 0x20)"

definition notGT :: "char \<Rightarrow> bool" where
  "notGT c = (c \<noteq> CHR ''>'')"

definition hasPrefixFold :: "string \<Rightarrow> string \<Rightarrow> bool" where
  "hasPrefixFold lit s = (map lowerByte (take (length lit) s) = map lowerByte lit)"

text \<open>
  \<^verbatim>\<open>RegexXMLDeclaration = (?i)^\s*<\?xml[^>]*\?>\s*\<close>, used with
  \<^verbatim>\<open>ReplaceAllString(s, "")\<close>: the text up to the first \<open>>\<close> after \<open><?xml\<close> must end in \<open>?\<close>;
  the match and the white space after it are removed. With no match the text is unchanged.
\<close>

definition replaceXMLDeclaration :: "string \<Rightarrow> string" where
  "replaceXMLDeclaration s =
     (let t = dropWhile reSpace s in
      if hasPrefixFold ''<?xml'' t then
        (let u = drop 5 t; body = takeWhile notGT u; rest = dropWhile notGT u in
         if rest \<noteq> [] \<and> body \<noteq> [] \<and> last body = CHR ''?''
         then dropWhile reSpace (tl rest) else s)
      else s)"

text \<open>
  \<^verbatim>\<open>RegexHTMLComment = (?i)^\s*<!--.*?-->\s*\<close>: \<^verbatim>\<open>.*?\<close> takes as few bytes as possible and
  no line feed, so the comment ends at the first \<open>-->\<close>, on the line of its \<open><!--\<close>.
  \<open>commentEnd\<close> returns the text after that \<open>-->\<close>.
\<close>

fun commentEnd :: "string \<Rightarrow> string option" where
  "commentEnd [] = None"
| "commentEnd (c # s) =
     (if prefix ''-->'' (c # s) then Some (drop 3 (c # s))
      else if c = CHR 0x0A then None
      else commentEnd s)"

definition replaceHTMLComment :: "string \<Rightarrow> string" where
  "replaceHTMLComment s =
     (let t = dropWhile reSpace s in
      if prefix ''<!--'' t then
        (case commentEnd (drop 4 t) of
           None \<Rightarrow> s
         | Some r \<Rightarrow> dropWhile reSpace r)
      else s)"

text \<open>
  \<^verbatim>\<open>RegexDOCTYPEExtraction = (?i)^\s*<!DOCTYPE\s+[^>]*>\<close>, used with \<^verbatim>\<open>FindString\<close>: the
  match runs from the start of the text (its leading white space included) to the first
  \<open>>\<close>; the byte after \<open><!DOCTYPE\<close> must be white space. No match is the empty string.
\<close>

definition findDOCTYPE :: "string \<Rightarrow> string" where
  "findDOCTYPE s =
     (let ws = takeWhile reSpace s; t = dropWhile reSpace s in
      if hasPrefixFold ''<!DOCTYPE'' t then
        (case drop 9 t of
           [] \<Rightarrow> []
         | c # u \<Rightarrow>
             if reSpace c \<and> dropWhile notGT u \<noteq> []
             then ws @ take 9 t @ c # takeWhile notGT u @ ''>''
             else [])
      else [])"

text \<open>
  \<^verbatim>\<open>RegexHTML5DOCTYPE = ^\s*<!DOCTYPE\s+HTML\s*>\s*$\<close>, used with \<^verbatim>\<open>MatchString\<close> on the
  upper-cased token; it is case sensitive.
\<close>

definition matchHTML5DOCTYPE :: "string \<Rightarrow> bool" where
  "matchHTML5DOCTYPE d =
     (let t = dropWhile reSpace d in
      prefix ''<!DOCTYPE'' t \<and>
      (case drop 9 t of
         [] \<Rightarrow> False
       | c # u \<Rightarrow>
           reSpace c \<and>
           (let v = dropWhile reSpace u in
            prefix ''HTML'' v \<and>
            (let w = dropWhile reSpace (drop 4 v) in
             prefix ''>'' w \<and> dropWhile reSpace (drop 1 w) = []))))"

section \<open>Markup version classifier\<close>

subsection \<open>Constants (internal/constants/constants.go)\<close>

abbreviation HTMLVersion5 :: string where "HTMLVersion5 \<equiv> ''HTML5''"
abbreviation HTMLVersionXHTML11 :: string where "HTMLVersionXHTML11 \<equiv> ''XHTML 1.1''"
abbreviation HTMLVersionXHTML10 :: string where "HTMLVersionXHTML10 \<equiv> ''XHTML 1.0''"
abbreviation HTMLVersionXHTML10Strict :: string where
  "HTMLVersionXHTML10Strict \<equiv> ''XHTML 1.0 Strict''"
abbreviation HTMLVersionXHTML10Transitional :: string where
  "HTMLVersionXHTML10Transitional \<equiv> ''XHTML 1.0 Transitional''"
abbreviation HTMLVersionXHTML10Frameset :: string where
  "HTMLVersionXHTML10Frameset \<equiv> ''XHTML 1.0 Frameset''"
abbreviation HTMLVersionHTML401 :: string where "HTMLVersionHTML401 \<equiv> ''HTML 4.01''"
abbreviation HTMLVersionHTML401Strict :: string where
  "HTMLVersionHTML401Strict \<equiv> ''HTML 4.01 Strict''"
abbreviation HTMLVersionHTML401Transitional :: string where
  "HTMLVersionHTML401Transitional \<equiv> ''HTML 4.01 Transitional''"
abbreviation HTMLVersionHTML401Frameset :: string where
  "HTMLVersionHTML401Frameset \<equiv> ''HTML 4.01 Frameset''"
abbreviation HTMLVersionHTML40 :: string where "HTMLVersionHTML40 \<equiv> ''HTML 4.0''"
abbreviation HTMLVersionHTML32 :: string where "HTMLVersionHTML32 \<equiv> ''HTML 3.2''"
abbreviation HTMLVersionHTML20 :: string where "HTMLVersionHTML20 \<equiv> ''HTML 2.0''"
abbreviation HTMLVersionXHTMLGeneric :: string where "HTMLVersionXHTMLGeneric \<equiv> ''XHTML''"
abbreviation HTMLVersionHTMLGeneric :: string where "HTMLVersionHTMLGeneric \<equiv> ''HTML''"
abbreviation HTMLVersionUnknown :: string where "HTMLVersionUnknown \<equiv> ''Unknown DOCTYPE''"

abbreviation DOCTYPEKeywordHTML :: string where "DOCTYPEKeywordHTML \<equiv> ''HTML''"
abbreviation DOCTYPEKeywordXHTML :: string where "DOCTYPEKeywordXHTML \<equiv> ''XHTML''"
abbreviation DOCTYPEKeywordStrict :: string where "DOCTYPEKeywordStrict \<equiv> ''STRICT''"
abbreviation DOCTYPEKeywordTransitional :: string where
  "DOCTYPEKeywordTransitional \<equiv> ''TRANSITIONAL''"
abbreviation DOCTYPEKeywordFrameset :: string where "DOCTYPEKeywordFrameset \<equiv> ''FRAMESET''"
abbreviation DOCTYPEKeywordHTML401 :: string where "DOCTYPEKeywordHTML401 \<equiv> ''HTML 4.01''"
abbreviation DOCTYPEKeywordHTML40 :: string where "DOCTYPEKeywordHTML40 \<equiv> ''HTML 4.0''"
abbreviation DOCTYPEKeywordHTML32 :: string where "DOCTYPEKeywordHTML32 \<equiv> ''HTML 3.2''"
abbreviation DOCTYPEKeywordHTML20 :: string where "DOCTYPEKeywordHTML20 \<equiv> ''HTML 2.0''"
abbreviation DOCTYPEKeywordXHTML11 :: string where "DOCTYPEKeywordXHTML11 \<equiv> ''XHTML 1.1''"
abbreviation DOCTYPEKeywordXHTML10 :: string where "DOCTYPEKeywordXHTML10 \<equiv> ''XHTML 1.0''"

subsection \<open>extractDOCTYPE, checkHTMLVersionWithVariants, detectHTMLVersion\<close>

definition extractDOCTYPE :: "unicode \<Rightarrow> string \<Rightarrow> string" where
  "extractDOCTYPE U htmlContent =
     ToUpper U (findDOCTYPE (replaceHTMLComment (replaceXMLDeclaration (TrimSpace U htmlContent))))"

definition checkHTMLVersionWithVariants ::
  "string \<Rightarrow> string \<Rightarrow> string \<Rightarrow> string \<Rightarrow> string \<Rightarrow> string \<Rightarrow> string" where
  "checkHTMLVersionWithVariants doctype keyword baseVersion strictVersion
       transitionalVersion framesetVersion =
     (if \<not> Contains doctype keyword then ''''
      else if strictVersion \<noteq> '''' \<and> Contains doctype DOCTYPEKeywordStrict
        then strictVersion
      else if transitionalVersion \<noteq> '''' \<and> Contains doctype DOCTYPEKeywordTransitional
        then transitionalVersion
      else if framesetVersion \<noteq> '''' \<and> Contains doctype DOCTYPEKeywordFrameset
        then framesetVersion
      else baseVersion)"

text \<open>
  The map literal \<^verbatim>\<open>simpleVersions\<close> of detectHTMLVersion, and the loop
  \<^verbatim>\<open>for keyword, version := range simpleVersions\<close> over it. Go visits the entries of a map
  in an order that the language leaves unspecified and that changes from one loop to the
  next, so the order of the visit is an argument of the model: a list \<open>visit\<close> holding the
  entries of \<open>simpleVersions\<close>, each once.
\<close>

definition simpleVersions :: "(string \<times> string) list" where
  "simpleVersions =
     [(DOCTYPEKeywordHTML40, HTMLVersionHTML40),
      (DOCTYPEKeywordHTML32, HTMLVersionHTML32),
      (DOCTYPEKeywordHTML20, HTMLVersionHTML20)]"

fun rangeSimpleVersions :: "(string \<times> string) list \<Rightarrow> string \<Rightarrow> string option" where
  "rangeSimpleVersions [] doctype = None"
| "rangeSimpleVersions ((keyword, version) # rest) doctype =
     (if Contains doctype keyword then Some version else rangeSimpleVersions rest doctype)"

definition classifyDOCTYPE :: "(string \<times> string) list \<Rightarrow> string \<Rightarrow> string" where
  "classifyDOCTYPE visit doctype =
     (if doctype = '''' then HTMLVersion5
      else if matchHTML5DOCTYPE doctype then HTMLVersion5
      else
        (let version = checkHTMLVersionWithVariants doctype DOCTYPEKeywordXHTML11
                         HTMLVersionXHTML11 '''' '''' '''' in
         if version \<noteq> '''' then version
         else
           (let version = checkHTMLVersionWithVariants doctype DOCTYPEKeywordXHTML10
                            HTMLVersionXHTML10 HTMLVersionXHTML10Strict
                            HTMLVersionXHTML10Transitional HTMLVersionXHTML10Frameset in
            if version \<noteq> '''' then version
            else
              (let version = checkHTMLVersionWithVariants doctype DOCTYPEKeywordHTML401
                               HTMLVersionHTML401 HTMLVersionHTML401Strict
                               HTMLVersionHTML401Transitional HTMLVersionHTML401Frameset in
               if version \<noteq> '''' then version
               else
                 (case rangeSimpleVersions visit doctype of
                    Some version \<Rightarrow> version
                  | None \<Rightarrow>
                      if Contains doctype DOCTYPEKeywordXHTML then HTMLVersionXHTMLGeneric
                      else if Contains doctype DOCTYPEKeywordHTML then HTMLVersionHTMLGeneric
                      else HTMLVersionUnknown)))))"

definition detectHTMLVersion :: "unicode \<Rightarrow> (string \<times> string) list \<Rightarrow> string \<Rightarrow> string" where
  "detectHTMLVersion U visit htmlContent = classifyDOCTYPE visit (extractDOCTYPE U htmlContent)"

text \<open>
  The labels of package constants, and the set the specification enumerates for
  \<open>html_version\<close> (written from the specification's words, for comparison).
\<close>

definition versionLabels :: "string list" where
  "versionLabels =
     [HTMLVersion5, HTMLVersionXHTML11, HTMLVersionXHTML10, HTMLVersionXHTML10Strict,
      HTMLVersionXHTML10Transitional, HTMLVersionXHTML10Frameset, HTMLVersionHTML401,
      HTMLVersionHTML401Strict, HTMLVersionHTML401Transitional, HTMLVersionHTML401Frameset,
      HTMLVersionHTML40, HTMLVersionHTML32, HTMLVersionHTML20, HTMLVersionXHTMLGeneric,
      HTMLVersionHTMLGeneric, HTMLVersionUnknown]"

definition specLabels :: "string list" where
  "specLabels =
     [''HTML5'', ''XHTML 1.1'', ''XHTML 1.0'', ''XHTML 1.0 Strict'', ''XHTML 1.0 Transitional'',
      ''XHTML 1.0 Frameset'', ''HTML 4.01'', ''HTML 4.01 Strict'', ''HTML 4.01 Transitional'',
      ''HTML 4.01 Frameset'', ''HTML 4.0'', ''HTML 3.2'', ''HTML 2.0'', ''XHTML'', ''HTML'',
      ''Unknown'']"

section \<open>Data model\<close>

text \<open>
  Go errors. \<open>LibraryError\<close> is an error returned by a library call (net/url, net/http, io,
  goquery, the cache); the others are the errors the analyzer builds with \<^verbatim>\<open>fmt.Errorf\<close>,
  wrapping the library's error where the format has \<^verbatim>\<open>%w\<close>.
\<close>

datatype error =
    LibraryError string
  | InvalidURL error
  | MissingSchemeOrHost
  | UnsupportedScheme string
  | FetchFailed error
  | StatusCodeError int
  | ReadBodyFailed error
  | ParseHTMLFailed error

text \<open>
  A call returns, or it panics (this includes the runtime giving up for lack of memory),
  or it blocks for ever (a goroutine waiting on a channel that nobody serves).
\<close>

datatype 'a outcome = Returns 'a | Panics | Blocks

text \<open>Of \<^verbatim>\<open>url.URL\<close> the analyzer reads \<open>Scheme\<close>, \<open>Host\<close> and the rendering \<^verbatim>\<open>String()\<close>.\<close>

record URL =
  Scheme :: string
  Host :: string
  urlString :: string

text \<open>
  An element of a goquery selection, as the analyzer observes it: \<^verbatim>\<open>s.Text()\<close> and the
  attributes behind \<^verbatim>\<open>s.Attr(name)\<close>. Of a checkbox it also reads
  \<^verbatim>\<open>s.Parent().Text()\<close>.
\<close>

record element =
  Text :: string
  Attrs :: "(string \<times> string) list"

record checkbox = element +
  ParentText :: string

definition Attr :: "'a element_scheme \<Rightarrow> string \<Rightarrow> string option" where
  "Attr s name = map_of (Attrs s) name"

text \<open>
  A form element: its attributes and the selection that each \<^verbatim>\<open>form.Find(selector)\<close> of
  detectLoginForm returns, in document order:
  \<^item> \<open>passwordInputs\<close>: \<^verbatim>\<open>input[type='password']\<close>;
  \<^item> \<open>userInputs\<close>: \<^verbatim>\<open>input[type='text'], input[type='email'], input[name*='username' i],
    input[name*='email' i], input[id*='username' i], input[id*='email' i]\<close>;
  \<^item> \<open>submitControls\<close>: \<^verbatim>\<open>button[type='submit'], input[type='submit']\<close>;
  \<^item> \<open>checkboxInputs\<close>: \<^verbatim>\<open>input[type='checkbox']\<close>;
  \<^item> \<open>labelsFor labelFor\<close>: the selector built as \<^verbatim>\<open>"label[for='" + labelFor + "']"\<close>;
  \<^item> \<open>anchors\<close>: \<^verbatim>\<open>a\<close>;
  \<^item> \<open>buttonsAndAnchors\<close>: \<^verbatim>\<open>button, a\<close>.
\<close>

record form =
  formAttrs :: "(string \<times> string) list"
  passwordInputs :: "element list"
  userInputs :: "element list"
  submitControls :: "element list"
  checkboxInputs :: "checkbox list"
  labelsFor :: "string \<Rightarrow> element list"
  anchors :: "element list"
  buttonsAndAnchors :: "element list"

text \<open>
  A parsed document (\<^verbatim>\<open>*goquery.Document\<close>), by the selections the analyzer takes of it:
  \<^item> \<open>titleText\<close>: \<^verbatim>\<open>doc.Find("title").Text()\<close>;
  \<^item> \<open>headingElements selector\<close>: \<^verbatim>\<open>doc.Find(selector)\<close> for \<open>h1\<close> to \<open>h6\<close>;
  \<^item> \<open>anchorsWithHref\<close>: \<^verbatim>\<open>doc.Find("a[href]")\<close>;
  \<^item> \<open>forms\<close>: \<^verbatim>\<open>doc.Find("form")\<close>;
  \<^item> \<open>authTags\<close>: \<^verbatim>\<open>doc.Find("meta[name*='sign' i], meta[name*='auth' i],
    link[rel*='authorization' i]")\<close>.
\<close>

record document =
  titleText :: string
  headingElements :: "string \<Rightarrow> element list"
  anchorsWithHref :: "element list"
  forms :: "form list"
  authTags :: "element list"

record linkCheckRequest =
  url :: string
  isInternal :: bool

record LinkAnalysis =
  Internal :: int
  External :: int
  Inaccessible :: int

record AnalyzeResponse =
  URL :: string
  HTMLVersion :: string
  Title :: string
  Headings :: "string \<rightharpoonup> int"
  Links :: LinkAnalysis
  HasLoginForm :: bool
  AnalyzedAt :: nat

text \<open>An HTTP response: its status code and what \<^verbatim>\<open>io.ReadAll(resp.Body)\<close> returns.\<close>

record response =
  StatusCode :: int
  Body :: "error + string"

text \<open>
  The fields of \<^verbatim>\<open>config.AnalyzerConfig\<close> that decide control flow (Go's \<open>int\<close>, which a
  configuration file may set to any value). NewAnalyzer replaces a zero by the default.
\<close>

record AnalyzerConfig =
  MaxLinks :: int
  MaxWorkers :: int

abbreviation DefaultMaxLinks :: int where "DefaultMaxLinks \<equiv> 100"
abbreviation DefaultMaxWorkers :: int where "DefaultMaxWorkers \<equiv> 20"
abbreviation DefaultLoginFormThreshold :: int where "DefaultLoginFormThreshold \<equiv> 10"
abbreviation StatusOK :: int where "StatusOK \<equiv> 200"
abbreviation StatusBadRequest :: int where "StatusBadRequest \<equiv> 400"

definition NewAnalyzer :: "AnalyzerConfig \<Rightarrow> AnalyzerConfig" where
  "NewAnalyzer cfg =
     (let cfg = (if MaxLinks cfg = 0 then cfg\<lparr>MaxLinks := DefaultMaxLinks\<rparr> else cfg);
          cfg = (if MaxWorkers cfg = 0 then cfg\<lparr>MaxWorkers := DefaultMaxWorkers\<rparr> else cfg)
      in cfg)"

text \<open>
  The collaborators of one call of Analyze, as the values their calls return:
  \<^item> \<open>unicodeTables\<close>, \<open>mapVisit\<close>: the Go runtime (see above);
  \<^item> \<open>url_Parse\<close>: \<^verbatim>\<open>url.Parse(targetURL)\<close>; \<open>URL_Parse base href\<close>: \<^verbatim>\<open>base.Parse(href)\<close>;
  \<^item> \<open>http_Get\<close>: \<^verbatim>\<open>a.httpClient.Get(targetURL)\<close>;
  \<^item> \<open>NewDocumentFromReader\<close>: the goquery parser on the fetched text;
  \<^item> \<open>NewRequestWithContext\<close>: the error, if any, of building the HEAD request of a link;
  \<^item> \<open>client_Do i req\<close>: \<^verbatim>\<open>client.Do\<close> for the task queued at position \<open>i\<close>: an error
    (transport failure, timeout, cancellation) or the status code of the response;
  \<^item> \<open>cache_Get\<close>, \<open>cache_Set\<close>: the methods of CacheInterface, returning Go's pair
    (result, error) and error;
  \<^item> \<open>time_Now\<close>: the clock;
  \<^item> \<open>channelsFit n\<close>: the runtime has the memory for the two channels of capacity \<open>n\<close>
    that analyzeLinks makes (for a capacity beyond what it can allocate,
    \<^verbatim>\<open>make(chan _, n)\<close> panics with "size out of range" or the process runs out of memory);
  \<^item> \<open>workersFit n\<close>: the runtime has the memory to start \<open>n\<close> worker goroutines.
\<close>

record world =
  unicodeTables :: unicode
  mapVisit :: "(string \<times> string) list"
  url_Parse :: "string \<Rightarrow> error + URL"
  URL_Parse :: "URL \<Rightarrow> string \<Rightarrow> error + URL"
  http_Get :: "string \<Rightarrow> error + response"
  NewDocumentFromReader :: "string \<Rightarrow> error + document"
  NewRequestWithContext :: "string \<Rightarrow> error option"
  client_Do :: "nat \<Rightarrow> linkCheckRequest \<Rightarrow> error + int"
  cache_Get :: "string \<Rightarrow> AnalyzeResponse option \<times> error option"
  cache_Set :: "string \<Rightarrow> AnalyzeResponse \<Rightarrow> error option"
  time_Now :: nat
  channelsFit :: "int \<Rightarrow> bool"
  workersFit :: "int \<Rightarrow> bool"

section \<open>Link extraction and reachability probing (analyzeLinks)\<close>

text \<open>
  The callback of \<^verbatim>\<open>doc.Find("a[href]").Each\<close>: it updates the counters and the two slices
  \<open>externalLinks\<close> and \<open>internalLinks\<close>. The counters are Go's 64-bit \<open>int\<close>; they count
  elements of a slice held in memory, far below \<open>2^63\<close>, so they are modelled by \<^typ>\<open>int\<close>.
\<close>

record linkState =
  analysis :: LinkAnalysis
  externalLinks :: "string list"
  internalLinks :: "string list"

definition eachAnchor :: "world \<Rightarrow> URL \<Rightarrow> linkState \<Rightarrow> element \<Rightarrow> linkState" where
  "eachAnchor w baseURL st s =
     (case Attr s ''href'' of
        None \<Rightarrow> st
      | Some href \<Rightarrow>
          (case URL_Parse w baseURL href of
             Inl err \<Rightarrow> st
           | Inr linkURL \<Rightarrow>
               if Host linkURL = Host baseURL
               then st\<lparr>analysis := (analysis st)\<lparr>Internal := Internal (analysis st) + 1\<rparr>,
                       internalLinks := internalLinks st @ [urlString linkURL]\<rparr>
               else st\<lparr>analysis := (analysis st)\<lparr>External := External (analysis st) + 1\<rparr>,
                       externalLinks := externalLinks st @ [urlString linkURL]\<rparr>))"

definition collectLinks :: "world \<Rightarrow> URL \<Rightarrow> document \<Rightarrow> linkState" where
  "collectLinks w baseURL doc =
     foldl (eachAnchor w baseURL)
       \<lparr>analysis = \<lparr>Internal = 0, External = 0, Inaccessible = 0\<rparr>,
        externalLinks = [], internalLinks = []\<rparr>
       (anchorsWithHref doc)"

text \<open>
  The loop over \<open>externalLinks\<close>: it returns the requests sent to \<open>linkChan\<close> and the final
  value of \<open>linksToCheck\<close>.
\<close>

fun enqueueExternal :: "int \<Rightarrow> int \<Rightarrow> string list \<Rightarrow> linkCheckRequest list \<times> int" where
  "enqueueExternal maxLinksToCheck linksToCheck [] = ([], linksToCheck)"
| "enqueueExternal maxLinksToCheck linksToCheck (link # rest) =
     (if linksToCheck \<ge> maxLinksToCheck then ([], linksToCheck)
      else
        (let (sent, n) = enqueueExternal maxLinksToCheck (linksToCheck + 1) rest
         in (\<lparr>url = link, isInternal = False\<rparr> # sent, n)))"

text \<open>
  The loop \<^verbatim>\<open>for i := 0; i < internalLinksToCheck; i++\<close> over \<open>links = internalLinks\<close>;
  reading \<^verbatim>\<open>internalLinks[i]\<close> out of range panics (\<open>None\<close>).
\<close>

function enqueueInternal :: "string list \<Rightarrow> int \<Rightarrow> int \<Rightarrow> linkCheckRequest list option" where
  "enqueueInternal links internalLinksToCheck i =
     (if i < internalLinksToCheck then
        (if 0 \<le> i \<and> i < int (length links) then
           (case enqueueInternal links internalLinksToCheck (i + 1) of
              None \<Rightarrow> None
            | Some sent \<Rightarrow> Some (\<lparr>url = links ! nat i, isInternal = True\<rparr> # sent))
         else None)
      else Some [])"
  by pat_completeness auto
termination
  by (relation "measure (\<lambda>(links, internalLinksToCheck, i). nat (internalLinksToCheck - i))")
     auto

declare enqueueInternal.simps [simp del]

text \<open>Lines 336 to 361: everything sent to \<open>linkChan\<close> before it is closed, in order.\<close>

definition enqueueLinks :: "int \<Rightarrow> string list \<Rightarrow> string list \<Rightarrow> linkCheckRequest list option" where
  "enqueueLinks maxLinksToCheck external internal =
     (let (sentExternal, linksToCheck) = enqueueExternal maxLinksToCheck 0 external;
          remainingCapacity = maxLinksToCheck - linksToCheck;
          internalLinksToCheck = int (length internal);
          internalLinksToCheck =
            (if internalLinksToCheck > remainingCapacity then remainingCapacity
             else internalLinksToCheck)
      in case enqueueInternal internal internalLinksToCheck 0 of
           None \<Rightarrow> None
         | Some sentInternal \<Rightarrow> Some (sentExternal @ sentInternal))"

text \<open>
  checkLinkWithTimeout. The two HTTP clients differ in their timeout only, which is part
  of what \<open>client_Do\<close> answers.
\<close>

definition checkLinkWithTimeout :: "world \<Rightarrow> nat \<Rightarrow> linkCheckRequest \<Rightarrow> bool" where
  "checkLinkWithTimeout w i req =
     (case NewRequestWithContext w (url req) of
        Some err \<Rightarrow> False
      | None \<Rightarrow>
          (case client_Do w i req of
             Inl err \<Rightarrow> False
           | Inr status \<Rightarrow> status < StatusBadRequest))"

text \<open>The loop \<^verbatim>\<open>for accessible := range resultChan\<close>.\<close>

fun countInaccessible :: "bool list \<Rightarrow> LinkAnalysis \<Rightarrow> LinkAnalysis" where
  "countInaccessible [] a = a"
| "countInaccessible (accessible # rest) a =
     countInaccessible rest
       (if \<not> accessible then a\<lparr>Inaccessible := Inaccessible a + 1\<rparr> else a)"

text \<open>
  analyzeLinks. \<^verbatim>\<open>make(chan _, MaxLinks)\<close> panics on a negative capacity, and on one that
  the runtime cannot allocate; then the loop \<^verbatim>\<open>for i := 0; i < MaxWorkers; i++\<close> starts the
  workers, which needs the memory for them. Both channels
  have room for \<open>MaxLinks\<close> values and at most that many are sent, so no send blocks. Each
  worker sends one result for each request it receives and the results are only counted,
  so the order in which the workers finish does not show in the result: the model takes
  the results in the order of the queue. With no worker (\<open>MaxWorkers \<le> 0\<close>) a queued
  request is never served: \<^verbatim>\<open>wg.Wait()\<close> does not return, \<open>resultChan\<close> is never closed
  and the loop over it blocks.
\<close>

definition analyzeLinks :: "AnalyzerConfig \<Rightarrow> world \<Rightarrow> document \<Rightarrow> URL \<Rightarrow> LinkAnalysis outcome" where
  "analyzeLinks cfg w doc baseURL =
     (if MaxLinks cfg < 0 \<or> \<not> channelsFit w (MaxLinks cfg) then Panics
      else if 0 < MaxWorkers cfg \<and> \<not> workersFit w (MaxWorkers cfg) then Panics
      else
        (let st = collectLinks w baseURL doc in
         case enqueueLinks (MaxLinks cfg) (externalLinks st) (internalLinks st) of
           None \<Rightarrow> Panics
         | Some queue \<Rightarrow>
             if MaxWorkers cfg \<le> 0 \<and> queue \<noteq> [] then Blocks
             else Returns
               (countInaccessible
                  (map (\<lambda>(i, req). checkLinkWithTimeout w i req) (enumerate 0 queue))
                  (analysis st))))"

section \<open>Login-form heuristic (detectLoginForm)\<close>

definition actionMatches :: "unicode \<Rightarrow> form \<Rightarrow> bool" where
  "actionMatches U f =
     (case map_of (formAttrs f) ''action'' of
        None \<Rightarrow> False
      | Some action \<Rightarrow>
          (let actionLower = ToLower U action in
           Contains actionLower ''login'' \<or> Contains actionLower ''signin''
           \<or> Contains actionLower ''auth''))"

definition submitMatches :: "unicode \<Rightarrow> element \<Rightarrow> bool" where
  "submitMatches U btn =
     (let btnText = ToLower U (Text btn);
          btnText = (case Attr btn ''value'' of
                       None \<Rightarrow> btnText
                     | Some btnVal \<Rightarrow> btnText @ '' '' @ ToLower U btnVal)
      in Contains btnText ''login'' \<or> Contains btnText ''sign in'' \<or> Contains btnText ''log in'')"

definition isRememberMe :: "unicode \<Rightarrow> form \<Rightarrow> checkbox \<Rightarrow> bool" where
  "isRememberMe U f s =
     (let label = ParentText s;
          label = (case Attr s ''id'' of
                     None \<Rightarrow> label
                   | Some labelFor \<Rightarrow>
                       foldl (\<lambda>label l. label @ '' '' @ Text l) label (labelsFor f labelFor));
          labelLower = ToLower U label
      in Contains labelLower ''remember me'' \<or> Contains labelLower ''keep me signed in'')"

definition isForgotPwd :: "unicode \<Rightarrow> element \<Rightarrow> bool" where
  "isForgotPwd U s =
     (let text = ToLower U (Text s) in Contains text ''forgot'' \<and> Contains text ''password'')"

definition providers :: "string list" where
  "providers = [''google'', ''facebook'', ''github'', ''twitter'', ''microsoft'']"

fun rangeProviders :: "string \<Rightarrow> string \<Rightarrow> string list \<Rightarrow> bool" where
  "rangeProviders text classesLower [] = False"
| "rangeProviders text classesLower (provider # rest) =
     (if Contains text (''sign in with '' @ provider)
         \<or> Contains text (''login with '' @ provider)
         \<or> (Contains classesLower provider
             \<and> (Contains classesLower ''auth'' \<or> Contains classesLower ''login''
                  \<or> Contains classesLower ''oauth''))
      then True
      else rangeProviders text classesLower rest)"

definition isOAuthButton :: "unicode \<Rightarrow> element \<Rightarrow> bool" where
  "isOAuthButton U s =
     (let text = ToLower U (Text s);
          classes = (case Attr s ''class'' of None \<Rightarrow> [] | Some c \<Rightarrow> c);
          classesLower = ToLower U classes
      in rangeProviders text classesLower providers)"

text \<open>The body of the callback of \<^verbatim>\<open>doc.Find("form").Each\<close>, up to the final comparison.\<close>

definition scoreForm :: "unicode \<Rightarrow> form \<Rightarrow> int" where
  "scoreForm U f =
     (let formScore = 0;
          formScore = (if actionMatches U f then formScore + 3 else formScore);
          formScore = (if length (passwordInputs f) > 0 then formScore + 4 else formScore);
          formScore = (if length (userInputs f) > 0 then formScore + 3 else formScore);
          formScore = foldl (\<lambda>formScore btn.
                               if submitMatches U btn then formScore + 2 else formScore)
                        formScore (submitControls f);
          rememberMe = filter (isRememberMe U f) (checkboxInputs f);
          formScore = (if length rememberMe > 0 then formScore + 2 else formScore);
          forgotPwd = filter (isForgotPwd U) (anchors f);
          formScore = (if length forgotPwd > 0 then formScore + 2 else formScore);
          oauthButtons = filter (isOAuthButton U) (buttonsAndAnchors f);
          formScore = (if length oauthButtons > 0 then formScore + 2 else formScore)
      in formScore)"

definition hasAuthContent :: "unicode \<Rightarrow> element \<Rightarrow> bool" where
  "hasAuthContent U s =
     (case Attr s ''content'' of
        None \<Rightarrow> False
      | Some content \<Rightarrow> Contains (ToLower U content) ''auth'')"

text \<open>
  The score when detectLoginForm compares it with the threshold: the highest form score,
  then one more for each selected meta or link tag whose content holds \<open>auth\<close>.
\<close>

definition loginScore :: "unicode \<Rightarrow> document \<Rightarrow> int" where
  "loginScore U doc =
     (let score = 0;
          score = foldl (\<lambda>score f.
                           let formScore = scoreForm U f in
                           if formScore > score then formScore else score)
                    score (forms doc);
          score = foldl (\<lambda>score s. if hasAuthContent U s then score + 1 else score)
                    score (authTags doc)
      in score)"

definition detectLoginForm :: "unicode \<Rightarrow> document \<Rightarrow> bool" where
  "detectLoginForm U doc =
     (let requiredScore = DefaultLoginFormThreshold in loginScore U doc \<ge> requiredScore)"

section \<open>Orchestration (Analyze)\<close>

definition parseAndValidateURL :: "world \<Rightarrow> string \<Rightarrow> error + URL" where
  "parseAndValidateURL w targetURL =
     (case url_Parse w targetURL of
        Inl err \<Rightarrow> Inl (InvalidURL err)
      | Inr parsedURL \<Rightarrow>
          if Scheme parsedURL = [] \<or> Host parsedURL = [] then Inl MissingSchemeOrHost
          else if Scheme parsedURL \<noteq> ''http'' \<and> Scheme parsedURL \<noteq> ''https''
            then Inl (UnsupportedScheme (Scheme parsedURL))
          else Inr parsedURL)"

definition fetchWebpage :: "world \<Rightarrow> string \<Rightarrow> error + string" where
  "fetchWebpage w targetURL =
     (case http_Get w targetURL of
        Inl err \<Rightarrow> Inl (FetchFailed err)
      | Inr resp \<Rightarrow>
          if StatusCode resp \<noteq> StatusOK then Inl (StatusCodeError (StatusCode resp))
          else
            (case Body resp of
               Inl err \<Rightarrow> Inl (ReadBodyFailed err)
             | Inr bodyBytes \<Rightarrow> Inr bodyBytes))"

definition parseHTML :: "world \<Rightarrow> string \<Rightarrow> error + document" where
  "parseHTML w htmlContent =
     (case NewDocumentFromReader w htmlContent of
        Inl err \<Rightarrow> Inl (ParseHTMLFailed err)
      | Inr doc \<Rightarrow> Inr doc)"

definition extractPageTitle :: "world \<Rightarrow> document \<Rightarrow> string" where
  "extractPageTitle w doc = TrimSpace (unicodeTables w) (titleText doc)"

text \<open>countHeadings: the selectors \<^verbatim>\<open>fmt.Sprintf("h%d", i)\<close> for \<open>i\<close> from 1 to 6.\<close>

definition countHeadings :: "document \<Rightarrow> (string \<rightharpoonup> int)" where
  "countHeadings doc =
     foldl (\<lambda>headings selector. headings(selector \<mapsto> int (length (headingElements doc selector))))
       Map.empty [''h1'', ''h2'', ''h3'', ''h4'', ''h5'', ''h6'']"

definition performWebpageAnalysis ::
  "AnalyzerConfig \<Rightarrow> world \<Rightarrow> string \<Rightarrow> string \<Rightarrow> document \<Rightarrow> URL \<Rightarrow> AnalyzeResponse outcome" where
  "performWebpageAnalysis cfg w targetURL htmlContent doc parsedURL =
     (case analyzeLinks cfg w doc parsedURL of
        Panics \<Rightarrow> Panics
      | Blocks \<Rightarrow> Blocks
      | Returns links \<Rightarrow>
          Returns
            \<lparr>URL = targetURL,
             HTMLVersion = detectHTMLVersion (unicodeTables w) (mapVisit w) htmlContent,
             Title = extractPageTitle w doc,
             Headings = countHeadings doc,
             Links = links,
             HasLoginForm = detectLoginForm (unicodeTables w) doc,
             AnalyzedAt = time_Now w\<rparr>)"

text \<open>
  Analyze. The cache answers a hit when it returns a result and no error; its errors are
  logged only, and the logger has no effect on what Analyze returns.
\<close>

definition Analyze :: "AnalyzerConfig \<Rightarrow> world \<Rightarrow> string \<Rightarrow> (error + AnalyzeResponse) outcome" where
  "Analyze cfg w targetURL =
     (case cache_Get w targetURL of
        (Some result, None) \<Rightarrow> Returns (Inr result)
      | _ \<Rightarrow>
          (case parseAndValidateURL w targetURL of
             Inl err \<Rightarrow> Returns (Inl err)
           | Inr parsedURL \<Rightarrow>
               (case fetchWebpage w targetURL of
                  Inl err \<Rightarrow> Returns (Inl err)
                | Inr htmlContent \<Rightarrow>
                    (case parseHTML w htmlContent of
                       Inl err \<Rightarrow> Returns (Inl err)
                     | Inr doc \<Rightarrow>
                         (case performWebpageAnalysis cfg w targetURL htmlContent doc parsedURL of
                            Panics \<Rightarrow> Panics
                          | Blocks \<Rightarrow> Blocks
                          | Returns result \<Rightarrow>
                              (let cacheError = cache_Set w targetURL result
                               in Returns (Inr result)))))))"

section \<open>Example inputs\<close>

text \<open>
  The strings of the examples are ASCII, so the Unicode tables are never consulted on
  them; \<open>noTables\<close> fills the field.
\<close>

definition noTables :: unicode where
  "noTables = \<lparr>MapToLower = (\<lambda>s. s), MapToUpper = (\<lambda>s. s),
               TrimFuncIsSpace = (\<lambda>s. s), TrimRightFuncIsSpace = (\<lambda>s. s)\<rparr>"

definition page :: "form list \<Rightarrow> element list \<Rightarrow> document" where
  "page fs tags =
     \<lparr>titleText = [], headingElements = (\<lambda>selector. []), anchorsWithHref = [],
      forms = fs, authTags = tags\<rparr>"

text \<open>
  Scenario D of the specification: a form holding
  \<^verbatim>\<open><input type="text" name="username">\<close>, \<^verbatim>\<open><input type="password" name="password">\<close> and
  \<^verbatim>\<open><button type="submit">Login</button>\<close>, with no action attribute.
\<close>

definition usernameInput :: element where
  "usernameInput = \<lparr>Text = [], Attrs = [(''type'', ''text''), (''name'', ''username'')]\<rparr>"

definition passwordInput :: element where
  "passwordInput = \<lparr>Text = [], Attrs = [(''type'', ''password''), (''name'', ''password'')]\<rparr>"

definition loginButton :: element where
  "loginButton = \<lparr>Text = ''Login'', Attrs = [(''type'', ''submit'')]\<rparr>"

definition scenarioD :: form where
  "scenarioD =
     \<lparr>formAttrs = [], passwordInputs = [passwordInput], userInputs = [usernameInput],
      submitControls = [loginButton], checkboxInputs = [], labelsFor = (\<lambda>labelFor. []),
      anchors = [], buttonsAndAnchors = [loginButton]\<rparr>"

text \<open>
  One more signal each: the attribute \<^verbatim>\<open>action="/login"\<close>; a second submit control
  \<^verbatim>\<open><input type="submit" value="Sign In">\<close>; a checkbox inside
  \<^verbatim>\<open><label>...Remember me</label>\<close>; the link \<^verbatim>\<open><a href="/forgot">Forgot password?</a>\<close>;
  the button \<^verbatim>\<open><button class="google-auth">Sign in with Google</button>\<close> (it has no type
  attribute, so the submit selector leaves it out); and, outside the form, the tag
  \<^verbatim>\<open><meta name="auth-provider" content="oauth2">\<close>.
\<close>

definition signInInput :: element where
  "signInInput = \<lparr>Text = [], Attrs = [(''type'', ''submit''), (''value'', ''Sign In'')]\<rparr>"

definition rememberCheckbox :: checkbox where
  "rememberCheckbox =
     \<lparr>Text = [], Attrs = [(''type'', ''checkbox''), (''name'', ''remember'')],
      ParentText = ''Remember me''\<rparr>"

definition forgotLink :: element where
  "forgotLink = \<lparr>Text = ''Forgot password?'', Attrs = [(''href'', ''/forgot'')]\<rparr>"

definition googleButton :: element where
  "googleButton = \<lparr>Text = ''Sign in with Google'', Attrs = [(''class'', ''google-auth'')]\<rparr>"

definition authMeta :: element where
  "authMeta = \<lparr>Text = [], Attrs = [(''name'', ''auth-provider''), (''content'', ''oauth2'')]\<rparr>"

definition scenarioD_action :: form where
  "scenarioD_action = scenarioD\<lparr>formAttrs := [(''action'', ''/login'')]\<rparr>"

definition scenarioD_submit :: form where
  "scenarioD_submit = scenarioD\<lparr>submitControls := [loginButton, signInInput]\<rparr>"

definition scenarioD_remember :: form where
  "scenarioD_remember = scenarioD\<lparr>checkboxInputs := [rememberCheckbox]\<rparr>"

definition scenarioD_forgot :: form where
  "scenarioD_forgot =
     scenarioD\<lparr>anchors := [forgotLink], buttonsAndAnchors := [loginButton, forgotLink]\<rparr>"

definition scenarioD_oauth :: form where
  "scenarioD_oauth = scenarioD\<lparr>buttonsAndAnchors := [loginButton, googleButton]\<rparr>"

text \<open>
  The form with the action, and then with
  \<^verbatim>\<open><input type="checkbox" id="keep"><label for="keep">Keep me signed in</label>\<close> and the
  link to the forgotten password added.
\<close>

definition keepCheckbox :: checkbox where
  "keepCheckbox =
     \<lparr>Text = [], Attrs = [(''type'', ''checkbox''), (''id'', ''keep'')],
      ParentText = ''LoginKeep me signed inForgot password?''\<rparr>"

definition keepLabel :: element where
  "keepLabel = \<lparr>Text = ''Keep me signed in'', Attrs = [(''for'', ''keep'')]\<rparr>"

definition scenarioD_more :: form where
  "scenarioD_more =
     scenarioD_action
       \<lparr>checkboxInputs := [keepCheckbox],
        labelsFor := (\<lambda>labelFor. if labelFor = ''keep'' then [keepLabel] else []),
        anchors := [forgotLink],
        buttonsAndAnchors := [loginButton, forgotLink]\<rparr>"

text \<open>
  A page of \<open>http://example.com\<close> with five links, in this order: two internal ones, one
  whose href does not parse, and two external ones, of which \<open>up.test\<close> answers 200 and
  \<open>down.test\<close> answers 404. Nothing listens on \<open>example.com\<close>, and the cache is down. The
  machine has room for channels of a million entries and for ten thousand workers.
\<close>

definition exampleBase :: URL where
  "exampleBase = \<lparr>Scheme = ''http'', Host = ''example.com'', urlString = ''http://example.com''\<rparr>"

definition anchorTo :: "string \<Rightarrow> element" where
  "anchorTo href = \<lparr>Text = ''link'', Attrs = [(''href'', href)]\<rparr>"

definition exampleDoc :: document where
  "exampleDoc =
     \<lparr>titleText = [], headingElements = (\<lambda>selector. []),
      anchorsWithHref = [anchorTo ''/internal1'', anchorTo ''/internal2'', anchorTo ''%zz'',
                         anchorTo ''http://up.test'', anchorTo ''http://down.test''],
      forms = [], authTags = []\<rparr>"

definition exampleResolve :: "URL \<Rightarrow> string \<Rightarrow> error + URL" where
  "exampleResolve base href =
     (case map_of
        [(''/internal1'', \<lparr>Scheme = ''http'', Host = ''example.com'',
                            urlString = ''http://example.com/internal1''\<rparr>),
         (''/internal2'', \<lparr>Scheme = ''http'', Host = ''example.com'',
                            urlString = ''http://example.com/internal2''\<rparr>),
         (''http://up.test'', \<lparr>Scheme = ''http'', Host = ''up.test'',
                                urlString = ''http://up.test''\<rparr>),
         (''http://down.test'', \<lparr>Scheme = ''http'', Host = ''down.test'',
                                  urlString = ''http://down.test''\<rparr>)] href of
        None \<Rightarrow> Inl (LibraryError ''invalid URL escape'')
      | Some linkURL \<Rightarrow> Inr linkURL)"

definition exampleProbe :: "nat \<Rightarrow> linkCheckRequest \<Rightarrow> error + int" where
  "exampleProbe i req =
     (if url req = ''http://up.test'' then Inr 200
      else if url req = ''http://down.test'' then Inr 404
      else Inl (LibraryError ''connection refused''))"

definition exampleWorld :: world where
  "exampleWorld =
     \<lparr>unicodeTables = noTables,
      mapVisit = simpleVersions,
      url_Parse = (\<lambda>targetURL. if targetURL = ''http://example.com'' then Inr exampleBase
                     else Inr \<lparr>Scheme = [], Host = [], urlString = targetURL\<rparr>),
      URL_Parse = exampleResolve,
      http_Get = (\<lambda>targetURL. Inr \<lparr>StatusCode = 200, Body = Inr ''<!DOCTYPE html>''\<rparr>),
      NewDocumentFromReader = (\<lambda>htmlContent. Inr exampleDoc),
      NewRequestWithContext = (\<lambda>link. None),
      client_Do = exampleProbe,
      cache_Get = (\<lambda>targetURL. (None, Some (LibraryError ''cache down''))),
      cache_Set = (\<lambda>targetURL result. Some (LibraryError ''cache down'')),
      time_Now = 0,
      channelsFit = (\<lambda>n. n \<le> 1000000),
      workersFit = (\<lambda>n. n \<le> 10000)\<rparr>"

definition exampleConfig :: AnalyzerConfig where
  "exampleConfig = \<lparr>MaxLinks = 3, MaxWorkers = 2\<rparr>"

section \<open>Notions of the specification\<close>

text \<open>
  The admission policy in the specification's words: external links first, up to the
  budget \<open>B\<close>; then internal links, in document order, up to what is left of \<open>B\<close>.
\<close>

definition specAdmission :: "int \<Rightarrow> string list \<Rightarrow> string list \<Rightarrow> linkCheckRequest list" where
  "specAdmission B external internal =
     (let admittedExternal = take (nat B) external;
          remaining = nat B - length admittedExternal
      in map (\<lambda>link. \<lparr>url = link, isInternal = False\<rparr>) admittedExternal
         @ map (\<lambda>link. \<lparr>url = link, isInternal = True\<rparr>) (take remaining internal))"

text \<open>
  The external links of a document (\<open>internal = False\<close>) and its internal links
  (\<open>internal = True\<close>), in document order: the renderings of the hrefs of its hyperlinks
  that resolve against the base URL, to another host or to the host of the base URL.
\<close>

definition resolvedLink :: "world \<Rightarrow> URL \<Rightarrow> bool \<Rightarrow> element \<Rightarrow> string option" where
  "resolvedLink w baseURL internal s =
     (case Attr s ''href'' of
        None \<Rightarrow> None
      | Some href \<Rightarrow>
          (case URL_Parse w baseURL href of
             Inl err \<Rightarrow> None
           | Inr linkURL \<Rightarrow>
               if (Host linkURL = Host baseURL) = internal then Some (urlString linkURL)
               else None))"

definition documentLinks :: "world \<Rightarrow> URL \<Rightarrow> document \<Rightarrow> bool \<Rightarrow> string list" where
  "documentLinks w baseURL doc internal =
     List.map_filter (resolvedLink w baseURL internal) (anchorsWithHref doc)"

text \<open>A hyperlink whose href resolves against the base URL, and one that resolves to the
  host of the base URL.\<close>

definition resolves :: "world \<Rightarrow> URL \<Rightarrow> element \<Rightarrow> bool" where
  "resolves w baseURL s =
     (case Attr s ''href'' of
        None \<Rightarrow> False
      | Some href \<Rightarrow> (case URL_Parse w baseURL href of Inl err \<Rightarrow> False | Inr linkURL \<Rightarrow> True))"

definition resolvesInternal :: "world \<Rightarrow> URL \<Rightarrow> element \<Rightarrow> bool" where
  "resolvesInternal w baseURL s =
     (case Attr s ''href'' of
        None \<Rightarrow> False
      | Some href \<Rightarrow>
          (case URL_Parse w baseURL href of
             Inl err \<Rightarrow> False
           | Inr linkURL \<Rightarrow> Host linkURL = Host baseURL))"

text \<open>
  The seven signals of a form are: a matching action, a password input, a user input,
  the matching submit controls (each counts), a remember-me checkbox, a forgot-password
  link and an OAuth control. Form \<open>g\<close> has the signals of form \<open>f\<close> and possibly more:
\<close>

definition addsSignals :: "unicode \<Rightarrow> form \<Rightarrow> form \<Rightarrow> bool" where
  "addsSignals U f g =
     ((actionMatches U f \<longrightarrow> actionMatches U g)
      \<and> (passwordInputs f \<noteq> [] \<longrightarrow> passwordInputs g \<noteq> [])
      \<and> (userInputs f \<noteq> [] \<longrightarrow> userInputs g \<noteq> [])
      \<and> length (filter (submitMatches U) (submitControls f))
          \<le> length (filter (submitMatches U) (submitControls g))
      \<and> (filter (isRememberMe U f) (checkboxInputs f) \<noteq> []
          \<longrightarrow> filter (isRememberMe U g) (checkboxInputs g) \<noteq> [])
      \<and> (filter (isForgotPwd U) (anchors f) \<noteq> []
          \<longrightarrow> filter (isForgotPwd U) (anchors g) \<noteq> [])
      \<and> (filter (isOAuthButton U) (buttonsAndAnchors f) \<noteq> []
          \<longrightarrow> filter (isOAuthButton U) (buttonsAndAnchors g) \<noteq> []))"

text \<open>
  Form \<open>g\<close> is form \<open>f\<close> with elements added: a matching action stays matching, every
  selection of \<open>f\<close> is kept within that of \<open>g\<close>, in order, and the checkboxes of \<open>f\<close> keep
  the labels that their ids select.
\<close>

definition addsElements :: "unicode \<Rightarrow> form \<Rightarrow> form \<Rightarrow> bool" where
  "addsElements U f g =
     ((actionMatches U f \<longrightarrow> actionMatches U g)
      \<and> subseq (passwordInputs f) (passwordInputs g)
      \<and> subseq (userInputs f) (userInputs g)
      \<and> subseq (submitControls f) (submitControls g)
      \<and> subseq (checkboxInputs f) (checkboxInputs g)
      \<and> (\<forall>s \<in> set (checkboxInputs f). \<forall>labelFor.
            Attr s ''id'' = Some labelFor \<longrightarrow> labelsFor g labelFor = labelsFor f labelFor)
      \<and> subseq (anchors f) (anchors g)
      \<and> subseq (buttonsAndAnchors f) (buttonsAndAnchors g))"

text \<open>The cache answers a hit.\<close>

definition cacheHit :: "world \<Rightarrow> string \<Rightarrow> bool" where
  "cacheHit w targetURL =
     (case cache_Get w targetURL of (Some result, None) \<Rightarrow> True | _ \<Rightarrow> False)"

section \<open>Verification: the markup version classifier\<close>

lemma Contains_sublist: "Contains s substr \<longleftrightarrow> sublist substr s"
  by (induction s) (auto simp: sublist_Cons_right)

lemmas classifier_eval = detectHTMLVersion_def classifyDOCTYPE_def
  checkHTMLVersionWithVariants_def extractDOCTYPE_def TrimSpace_def trimRightSpace_def
  ToUpper_def replaceXMLDeclaration_def replaceHTMLComment_def findDOCTYPE_def
  matchHTML5DOCTYPE_def hasPrefixFold_def reSpace_def notGT_def asciiSpace_def
  isASCIIByte_def isUpperByte_def isLowerByte_def simpleVersions_def Let_def

lemma rangeSimpleVersions_Some:
  "rangeSimpleVersions visit doctype = Some version \<Longrightarrow> version \<in> snd ` set visit"
  by (induction visit doctype rule: rangeSimpleVersions.induct) (auto split: if_splits)

lemma classifyDOCTYPE_label:
  assumes "set visit \<subseteq> set simpleVersions"
  shows "classifyDOCTYPE visit doctype \<in> set versionLabels"
proof -
  have simple: "version \<in> set versionLabels"
    if "rangeSimpleVersions visit doctype = Some version" for version
  proof -
    from that have "version \<in> snd ` set simpleVersions"
      using rangeSimpleVersions_Some assms by blast
    then show ?thesis by (auto simp: simpleVersions_def versionLabels_def)
  qed
  show ?thesis
    unfolding classifyDOCTYPE_def checkHTMLVersionWithVariants_def Let_def
    by (auto simp: versionLabels_def dest: simple split: option.splits)
qed

text \<open>
  The tests of the repository for extractDOCTYPE (TestAnalyzer_ExtractDOCTYPE), run on
  the model.
\<close>

lemma extractDOCTYPE_tests:
  "extractDOCTYPE U ''<!DOCTYPE html><html></html>'' = ''<!DOCTYPE HTML>''"
  "extractDOCTYPE U ''<?xml version='1.0' encoding='UTF-8'?><!DOCTYPE html><html></html>''
     = ''<!DOCTYPE HTML>''"
  "extractDOCTYPE U ''<!-- This is a comment --><!DOCTYPE html><html></html>''
     = ''<!DOCTYPE HTML>''"
  "extractDOCTYPE U ''<html></html>'' = []"
  "extractDOCTYPE U (''   '' @ [CHR 0x0A, CHR 0x09] @ ''<!DOCTYPE html><html></html>'')
     = ''<!DOCTYPE HTML>''"
  by (simp_all add: classifier_eval)

text \<open>
  C3. For every markup text, and whatever the order in which the loop visits the map
  \<open>simpleVersions\<close>, detectHTMLVersion returns one of the sixteen labels of package
  constants. The last of them is the string \<open>Unknown DOCTYPE\<close>.
\<close>

theorem detectHTMLVersion_label:
  "mset visit = mset simpleVersions
   \<Longrightarrow> detectHTMLVersion U visit htmlContent \<in> set versionLabels"
  unfolding detectHTMLVersion_def
  by (rule classifyDOCTYPE_label) (metis mset_eq_setD order_refl)

theorem detectHTMLVersion_label_witness:
  "\<forall>U. mset simpleVersions = mset simpleVersions
     \<and> detectHTMLVersion U simpleVersions
          ''<!DOCTYPE HTML PUBLIC '-//W3C//DTD HTML 4.01//EN' 'http://www.w3.org/TR/html4/strict.dtd'>''
        = HTMLVersionHTML401Strict
     \<and> HTMLVersionHTML401Strict \<in> set versionLabels"
proof
  fix U
  let ?html =
    "''<!DOCTYPE HTML PUBLIC '-//W3C//DTD HTML 4.01//EN' 'http://www.w3.org/TR/html4/strict.dtd'>''"
  have "detectHTMLVersion U simpleVersions ?html = HTMLVersionHTML401Strict"
    by (simp add: classifier_eval)
  with detectHTMLVersion_label [of simpleVersions U ?html]
  show "mset simpleVersions = mset simpleVersions
     \<and> detectHTMLVersion U simpleVersions ?html = HTMLVersionHTML401Strict
     \<and> HTMLVersionHTML401Strict \<in> set versionLabels"
    by simp
qed

text \<open>
  The set that the specification enumerates ends in \<open>Unknown\<close>; on
  \<^verbatim>\<open><!DOCTYPE something-else>\<close> the classifier returns \<open>Unknown DOCTYPE\<close>, which is not in
  that set.
\<close>

theorem detectHTMLVersion_label_counterexample:
  "\<not> (\<forall>U visit htmlContent. mset visit = mset simpleVersions \<longrightarrow>
         detectHTMLVersion U visit htmlContent \<in> set specLabels)"
proof
  assume a: "\<forall>U visit htmlContent. mset visit = mset simpleVersions \<longrightarrow>
         detectHTMLVersion U visit htmlContent \<in> set specLabels"
  have "detectHTMLVersion noTables simpleVersions ''<!DOCTYPE something-else>''
          = ''Unknown DOCTYPE''"
    by (simp add: classifier_eval)
  moreover have "''Unknown DOCTYPE'' \<notin> set specLabels"
    by (simp add: specLabels_def)
  ultimately show False
    using a[rule_format, of simpleVersions noTables "''<!DOCTYPE something-else>''"] by simp
qed

text \<open>
  C4. The classifier is not a function of the markup text alone. On the text
  \<^verbatim>\<open><!DOCTYPE HTML PUBLIC '-//W3C//DTD HTML 4.0//EN' 'HTML 3.2'>\<close> the loop over the map
  \<open>simpleVersions\<close> returns \<open>HTML 4.0\<close> when it visits the entries in the order of the
  literal and \<open>HTML 3.2\<close> when it visits them in the reverse order; Go allows both.
\<close>

theorem detectHTMLVersion_visit_order:
  "mset (rev simpleVersions) = mset simpleVersions
   \<and> detectHTMLVersion U simpleVersions
        ''<!DOCTYPE HTML PUBLIC '-//W3C//DTD HTML 4.0//EN' 'HTML 3.2'>'' = HTMLVersionHTML40
   \<and> detectHTMLVersion U (rev simpleVersions)
        ''<!DOCTYPE HTML PUBLIC '-//W3C//DTD HTML 4.0//EN' 'HTML 3.2'>'' = HTMLVersionHTML32"
  by (simp add: classifier_eval)

section \<open>Verification: link extraction and probing\<close>

lemma enqueueExternal_take:
  "enqueueExternal mx n links =
     (map (\<lambda>link. \<lparr>url = link, isInternal = False\<rparr>) (take (nat (mx - n)) links),
      n + int (length (take (nat (mx - n)) links)))"
proof (induction links arbitrary: n)
  case Nil
  then show ?case by simp
next
  case (Cons link rest)
  show ?case
  proof (cases "n \<ge> mx")
    case True
    then show ?thesis by simp
  next
    case False
    then have "nat (mx - n) = Suc (nat (mx - (n + 1)))" by simp
    with False Cons[of "n + 1"] show ?thesis by simp
  qed
qed

lemma enqueueInternal_take:
  "0 \<le> i \<Longrightarrow> k \<le> int (length links) \<Longrightarrow>
   enqueueInternal links k i =
     Some (map (\<lambda>link. \<lparr>url = link, isInternal = True\<rparr>)
             (take (nat (k - i)) (drop (nat i) links)))"
proof (induction links k i rule: enqueueInternal.induct)
  case (1 links k i)
  show ?case
  proof (cases "i < k")
    case False
    then show ?thesis by (simp add: enqueueInternal.simps)
  next
    case True
    with "1.prems" have inr: "0 \<le> i \<and> i < int (length links)" by simp
    have ih: "enqueueInternal links k (i + 1) =
      Some (map (\<lambda>link. \<lparr>url = link, isInternal = True\<rparr>)
              (take (nat (k - (i + 1))) (drop (nat (i + 1)) links)))"
      using "1.IH"[OF True inr] "1.prems" by simp
    from inr have lt: "nat i < length links" by (simp add: nat_less_iff)
    have d: "drop (nat i) links = links ! nat i # drop (nat (i + 1)) links"
      using lt inr by (simp add: Cons_nth_drop_Suc nat_add_distrib)
    have n: "nat (k - i) = Suc (nat (k - (i + 1)))" using True by simp
    show ?thesis
      by (subst enqueueInternal.simps) (simp add: True inr ih d n)
  qed
qed

text \<open>The two loops send exactly what the admission policy admits, for every budget.\<close>

lemma enqueueLinks_spec:
  "enqueueLinks B external internal = Some (specAdmission B external internal)"
proof -
  define n where "n = int (length (take (nat B) external))"
  define k where "k = (if int (length internal) > B - n then B - n else int (length internal))"
  have nd: "nat (B - n) = nat B - length (take (nat B) external)"
    unfolding n_def by simp
  have tk: "take (nat k) internal = take (nat B - length (take (nat B) external)) internal"
  proof (cases "int (length internal) > B - n")
    case True
    then show ?thesis using nd by (simp add: k_def)
  next
    case False
    then have "length internal \<le> nat (B - n)" by simp
    with False show ?thesis using nd by (simp add: k_def)
  qed
  have "k \<le> int (length internal)" by (simp add: k_def)
  then have "enqueueInternal internal k 0 =
      Some (map (\<lambda>link. \<lparr>url = link, isInternal = True\<rparr>)
              (take (nat (k - 0)) (drop (nat 0) internal)))"
    by (intro enqueueInternal_take) simp_all
  then have ei: "enqueueInternal internal k 0 =
      Some (map (\<lambda>link. \<lparr>url = link, isInternal = True\<rparr>)
              (take (nat B - length (take (nat B) external)) internal))"
    using tk by simp
  have "enqueueLinks B external internal =
      (case enqueueInternal internal k 0 of
         None \<Rightarrow> None
       | Some sentInternal \<Rightarrow>
           Some (map (\<lambda>link. \<lparr>url = link, isInternal = False\<rparr>) (take (nat B) external)
                 @ sentInternal))"
    unfolding enqueueLinks_def k_def n_def
    by (simp add: enqueueExternal_take Let_def)
  also have "\<dots> = Some (specAdmission B external internal)"
    unfolding ei specAdmission_def by (simp add: Let_def)
  finally show ?thesis .
qed

lemma length_specAdmission:
  "0 \<le> B \<Longrightarrow> int (length (specAdmission B external internal)) \<le> B"
  by (auto simp: specAdmission_def Let_def min_def)

lemma countInaccessible_eq:
  "countInaccessible results a =
     a\<lparr>Inaccessible := Inaccessible a + int (length (filter Not results))\<rparr>"
  by (induction results arbitrary: a) auto

text \<open>The count does not depend on the order in which the results arrive.\<close>

lemma countInaccessible_order:
  "mset results = mset results' \<Longrightarrow> countInaccessible results a = countInaccessible results' a"
proof -
  assume "mset results = mset results'"
  then have "mset (filter Not results) = mset (filter Not results')" by simp
  then have "length (filter Not results) = length (filter Not results')"
    by (rule mset_eq_length)
  then show ?thesis by (simp add: countInaccessible_eq)
qed

lemma eachAnchor_step:
  "Internal (analysis (eachAnchor w baseURL st s))
     = Internal (analysis st) + (if resolvesInternal w baseURL s then 1 else 0)"
  "External (analysis (eachAnchor w baseURL st s))
     = External (analysis st)
       + (if resolves w baseURL s \<and> \<not> resolvesInternal w baseURL s then 1 else 0)"
  "Inaccessible (analysis (eachAnchor w baseURL st s)) = Inaccessible (analysis st)"
  by (auto simp: eachAnchor_def resolves_def resolvesInternal_def split: option.splits sum.splits)

lemma foldl_eachAnchor:
  "Internal (analysis (foldl (eachAnchor w baseURL) st els))
     = Internal (analysis st) + int (length (filter (resolvesInternal w baseURL) els))
   \<and> External (analysis (foldl (eachAnchor w baseURL) st els))
     = External (analysis st)
       + int (length (filter (\<lambda>s. resolves w baseURL s \<and> \<not> resolvesInternal w baseURL s) els))
   \<and> Inaccessible (analysis (foldl (eachAnchor w baseURL) st els)) = Inaccessible (analysis st)"
proof (induction els arbitrary: st)
  case Nil
  then show ?case by simp
next
  case (Cons s els)
  show ?case
    by (simp add: Cons eachAnchor_step)
qed

lemma eachAnchor_links:
  "externalLinks (eachAnchor w baseURL st s)
     = externalLinks st @ (case resolvedLink w baseURL False s of None \<Rightarrow> [] | Some l \<Rightarrow> [l])"
  "internalLinks (eachAnchor w baseURL st s)
     = internalLinks st @ (case resolvedLink w baseURL True s of None \<Rightarrow> [] | Some l \<Rightarrow> [l])"
  by (auto simp: eachAnchor_def resolvedLink_def split: option.splits sum.splits)

lemma foldl_eachAnchor_links:
  "externalLinks (foldl (eachAnchor w baseURL) st els)
     = externalLinks st @ List.map_filter (resolvedLink w baseURL False) els
   \<and> internalLinks (foldl (eachAnchor w baseURL) st els)
     = internalLinks st @ List.map_filter (resolvedLink w baseURL True) els"
proof (induction els arbitrary: st)
  case Nil
  then show ?case by (simp add: map_filter_simps)
next
  case (Cons s els)
  show ?case
    by (simp add: Cons eachAnchor_links map_filter_simps split: option.splits)
qed

text \<open>The two slices hold the external and the internal links of the document, in
  document order.\<close>

lemma collectLinks_links:
  "externalLinks (collectLinks w baseURL doc) = documentLinks w baseURL doc False"
  "internalLinks (collectLinks w baseURL doc) = documentLinks w baseURL doc True"
  unfolding collectLinks_def documentLinks_def by (simp_all add: foldl_eachAnchor_links)

lemma collectLinks_counts:
  "Internal (analysis (collectLinks w baseURL doc))
     = int (length (filter (resolvesInternal w baseURL) (anchorsWithHref doc)))
   \<and> External (analysis (collectLinks w baseURL doc))
     = int (length (filter (\<lambda>s. resolves w baseURL s \<and> \<not> resolvesInternal w baseURL s)
                      (anchorsWithHref doc)))
   \<and> Inaccessible (analysis (collectLinks w baseURL doc)) = 0"
  unfolding collectLinks_def by (simp add: foldl_eachAnchor)

lemma resolvesInternal_resolves: "resolvesInternal w baseURL s \<Longrightarrow> resolves w baseURL s"
  by (auto simp: resolves_def resolvesInternal_def split: option.splits sum.splits)

lemma length_filter_split:
  "length (filter P xs)
     = length (filter (\<lambda>x. P x \<and> Q x) xs) + length (filter (\<lambda>x. P x \<and> \<not> Q x) xs)"
  by (induction xs) auto

lemma filter_Not_map:
  "filter Not (map (\<lambda>(i, req). checkLinkWithTimeout w i req) xs)
     = map (\<lambda>(i, req). checkLinkWithTimeout w i req)
         (filter (\<lambda>(i, req). \<not> checkLinkWithTimeout w i req) xs)"
  by (induction xs) auto

lemma analyzeLinks_Returns:
  assumes "analyzeLinks cfg w doc baseURL = Returns a"
  shows "0 \<le> MaxLinks cfg"
    and "a = countInaccessible
               (map (\<lambda>(i, req). checkLinkWithTimeout w i req)
                  (enumerate 0 (specAdmission (MaxLinks cfg)
                     (externalLinks (collectLinks w baseURL doc))
                     (internalLinks (collectLinks w baseURL doc)))))
               (analysis (collectLinks w baseURL doc))"
  using assms unfolding analyzeLinks_def
  by (auto simp: enqueueLinks_spec Let_def split: if_splits)

lemma analyzeLinks_total:
  assumes "0 \<le> MaxLinks cfg" and "channelsFit w (MaxLinks cfg)"
    and "0 < MaxWorkers cfg" and "workersFit w (MaxWorkers cfg)"
  shows "\<exists>a. analyzeLinks cfg w doc baseURL = Returns a"
  using assms unfolding analyzeLinks_def by (simp add: enqueueLinks_spec Let_def)

text \<open>Without the memory for the channels there is no result, whatever the budget.\<close>

lemma analyzeLinks_no_memory:
  "\<not> channelsFit w (MaxLinks cfg) \<Longrightarrow> analyzeLinks cfg w doc baseURL = Panics"
  by (simp add: analyzeLinks_def)

text \<open>
  NewAnalyzer replaces a zero worker count by the default, so with any configuration that
  has no negative entry, on a machine with the memory for it, the analysis of the links
  returns.
\<close>

lemma analyzeLinks_NewAnalyzer:
  assumes "0 \<le> MaxLinks cfg" and "0 \<le> MaxWorkers cfg"
    and "channelsFit w (MaxLinks (NewAnalyzer cfg))"
    and "workersFit w (MaxWorkers (NewAnalyzer cfg))"
  shows "\<exists>a. analyzeLinks (NewAnalyzer cfg) w doc baseURL = Returns a"
proof (rule analyzeLinks_total)
  show "0 \<le> MaxLinks (NewAnalyzer cfg)" using assms by (simp add: NewAnalyzer_def Let_def)
  show "0 < MaxWorkers (NewAnalyzer cfg)" using assms by (simp add: NewAnalyzer_def Let_def)
qed (use assms in simp_all)

lemma analyzeLinks_Inaccessible:
  assumes "analyzeLinks cfg w doc baseURL = Returns a"
  shows "Inaccessible a
           = int (length (filter (\<lambda>(i, req). \<not> checkLinkWithTimeout w i req)
               (enumerate 0 (specAdmission (MaxLinks cfg)
                  (externalLinks (collectLinks w baseURL doc))
                  (internalLinks (collectLinks w baseURL doc))))))"
  by (subst analyzeLinks_Returns(2)[OF assms])
     (simp add: countInaccessible_eq collectLinks_counts filter_Not_map)

lemmas example_defs = exampleWorld_def exampleDoc_def exampleBase_def exampleResolve_def
  exampleProbe_def exampleConfig_def anchorTo_def

lemma example_collectLinks:
  "collectLinks exampleWorld exampleBase exampleDoc =
     \<lparr>analysis = \<lparr>Internal = 2, External = 2, Inaccessible = 0\<rparr>,
      externalLinks = [''http://up.test'', ''http://down.test''],
      internalLinks = [''http://example.com/internal1'', ''http://example.com/internal2'']\<rparr>"
  by (simp add: collectLinks_def eachAnchor_def Attr_def example_defs)

lemma example_specAdmission:
  "specAdmission 3 [''http://up.test'', ''http://down.test'']
     [''http://example.com/internal1'', ''http://example.com/internal2'']
   = [\<lparr>url = ''http://up.test'', isInternal = False\<rparr>,
      \<lparr>url = ''http://down.test'', isInternal = False\<rparr>,
      \<lparr>url = ''http://example.com/internal1'', isInternal = True\<rparr>]"
  by (simp add: specAdmission_def Let_def)

lemma example_analyzeLinks:
  "analyzeLinks exampleConfig exampleWorld exampleDoc exampleBase
     = Returns \<lparr>Internal = 2, External = 2, Inaccessible = 2\<rparr>"
  unfolding analyzeLinks_def example_collectLinks
  by (simp add: enqueueLinks_spec exampleConfig_def example_specAdmission enumerate_eq_zip
        checkLinkWithTimeout_def exampleWorld_def exampleProbe_def upt_rec)

text \<open>
  C1. The two slices that analyzeLinks fills are the external and the internal links of
  the document, in document order, and the requests it queues are those of the admission
  policy: the first \<open>B\<close> external links, then internal links in document order up to \<open>B\<close>
  minus the number of admitted external links. With a budget \<open>B \<ge> 0\<close>, at least one
  worker and the memory for the channels and the workers the analysis returns, and
  whenever it returns, \<open>Inaccessible\<close> is the number of queued requests whose probe fails:
  a link that is not queued is not probed and adds nothing.
\<close>

theorem analyzeLinks_admission:
  "externalLinks (collectLinks w baseURL doc) = documentLinks w baseURL doc False
   \<and> internalLinks (collectLinks w baseURL doc) = documentLinks w baseURL doc True
   \<and> enqueueLinks (MaxLinks cfg) (externalLinks (collectLinks w baseURL doc))
       (internalLinks (collectLinks w baseURL doc))
     = Some (specAdmission (MaxLinks cfg) (documentLinks w baseURL doc False)
              (documentLinks w baseURL doc True))
   \<and> (0 \<le> MaxLinks cfg \<and> channelsFit w (MaxLinks cfg)
       \<and> 0 < MaxWorkers cfg \<and> workersFit w (MaxWorkers cfg)
        \<longrightarrow> (\<exists>a. analyzeLinks cfg w doc baseURL = Returns a))
   \<and> (\<forall>a. analyzeLinks cfg w doc baseURL = Returns a
        \<longrightarrow> Inaccessible a
              = int (length (filter (\<lambda>(i, req). \<not> checkLinkWithTimeout w i req)
                  (enumerate 0 (specAdmission (MaxLinks cfg)
                     (documentLinks w baseURL doc False)
                     (documentLinks w baseURL doc True))))))"
  using analyzeLinks_total[of cfg w doc baseURL] analyzeLinks_Inaccessible[of cfg w doc baseURL]
  by (simp add: enqueueLinks_spec collectLinks_links)

theorem analyzeLinks_admission_witness:
  "0 \<le> MaxLinks exampleConfig \<and> channelsFit exampleWorld (MaxLinks exampleConfig)
   \<and> 0 < MaxWorkers exampleConfig \<and> workersFit exampleWorld (MaxWorkers exampleConfig)
   \<and> analyzeLinks exampleConfig exampleWorld exampleDoc exampleBase
       = Returns \<lparr>Internal = 2, External = 2, Inaccessible = 2\<rparr>
   \<and> documentLinks exampleWorld exampleBase exampleDoc False
       = [''http://up.test'', ''http://down.test'']
   \<and> documentLinks exampleWorld exampleBase exampleDoc True
       = [''http://example.com/internal1'', ''http://example.com/internal2'']
   \<and> enqueueLinks 3 [''http://up.test'', ''http://down.test'']
        [''http://example.com/internal1'', ''http://example.com/internal2'']
       = Some [\<lparr>url = ''http://up.test'', isInternal = False\<rparr>,
               \<lparr>url = ''http://down.test'', isInternal = False\<rparr>,
               \<lparr>url = ''http://example.com/internal1'', isInternal = True\<rparr>]
   \<and> int (length (filter (\<lambda>(i, req). \<not> checkLinkWithTimeout exampleWorld i req)
          (enumerate 0 [\<lparr>url = ''http://up.test'', isInternal = False\<rparr>,
                        \<lparr>url = ''http://down.test'', isInternal = False\<rparr>,
                        \<lparr>url = ''http://example.com/internal1'', isInternal = True\<rparr>]))) = 2"
proof -
  note t = analyzeLinks_admission[of exampleWorld exampleBase exampleDoc exampleConfig]
  have h: "0 \<le> MaxLinks exampleConfig \<and> channelsFit exampleWorld (MaxLinks exampleConfig)
     \<and> 0 < MaxWorkers exampleConfig \<and> workersFit exampleWorld (MaxWorkers exampleConfig)"
    by (simp add: exampleConfig_def exampleWorld_def)
  have e: "documentLinks exampleWorld exampleBase exampleDoc False
       = [''http://up.test'', ''http://down.test'']"
    using t[THEN conjunct1] by (simp add: example_collectLinks)
  have i: "documentLinks exampleWorld exampleBase exampleDoc True
       = [''http://example.com/internal1'', ''http://example.com/internal2'']"
    using t[THEN conjunct2, THEN conjunct1] by (simp add: example_collectLinks)
  have q: "enqueueLinks 3 [''http://up.test'', ''http://down.test'']
        [''http://example.com/internal1'', ''http://example.com/internal2'']
       = Some (specAdmission 3 [''http://up.test'', ''http://down.test'']
        [''http://example.com/internal1'', ''http://example.com/internal2''])"
    using t[THEN conjunct2, THEN conjunct2, THEN conjunct1]
    by (simp add: example_collectLinks exampleConfig_def e i)
  have "Inaccessible \<lparr>Internal = 2, External = 2, Inaccessible = 2\<rparr>
      = int (length (filter (\<lambda>(i, req). \<not> checkLinkWithTimeout exampleWorld i req)
          (enumerate 0 (specAdmission (MaxLinks exampleConfig)
             (documentLinks exampleWorld exampleBase exampleDoc False)
             (documentLinks exampleWorld exampleBase exampleDoc True)))))"
    using t[THEN conjunct2, THEN conjunct2, THEN conjunct2, THEN conjunct2, rule_format,
            OF example_analyzeLinks] .
  then have c: "int (length (filter (\<lambda>(i, req). \<not> checkLinkWithTimeout exampleWorld i req)
          (enumerate 0 (specAdmission 3 [''http://up.test'', ''http://down.test'']
        [''http://example.com/internal1'', ''http://example.com/internal2''])))) = 2"
    by (simp add: e i exampleConfig_def)
  from h example_analyzeLinks e i q c show ?thesis
    unfolding example_specAdmission by simp
qed

text \<open>
  C2. In every result of analyzeLinks, \<open>Inaccessible\<close> is at least 0 and at most the
  number of queued requests, which is at most the budget \<open>MaxLinks\<close>.
\<close>

theorem analyzeLinks_inaccessible_bounds:
  assumes "analyzeLinks cfg w doc baseURL = Returns a"
  shows "\<exists>queue. enqueueLinks (MaxLinks cfg) (externalLinks (collectLinks w baseURL doc))
                    (internalLinks (collectLinks w baseURL doc)) = Some queue
           \<and> 0 \<le> Inaccessible a
           \<and> Inaccessible a \<le> int (length queue)
           \<and> int (length queue) \<le> MaxLinks cfg"
proof -
  let ?q = "specAdmission (MaxLinks cfg) (externalLinks (collectLinks w baseURL doc))
              (internalLinks (collectLinks w baseURL doc))"
  have "length (filter (\<lambda>(i, req). \<not> checkLinkWithTimeout w i req) (enumerate 0 ?q))
       \<le> length ?q"
    by (metis length_filter_le length_enumerate)
  then have "0 \<le> Inaccessible a \<and> Inaccessible a \<le> int (length ?q)"
    by (simp add: analyzeLinks_Inaccessible[OF assms])
  moreover have "int (length ?q) \<le> MaxLinks cfg"
    using analyzeLinks_Returns(1)[OF assms] by (rule length_specAdmission)
  ultimately show ?thesis by (simp add: enqueueLinks_spec)
qed

theorem analyzeLinks_inaccessible_bounds_witness:
  "analyzeLinks exampleConfig exampleWorld exampleDoc exampleBase
       = Returns \<lparr>Internal = 2, External = 2, Inaccessible = 2\<rparr>
   \<and> (\<exists>queue. enqueueLinks 3 [''http://up.test'', ''http://down.test'']
        [''http://example.com/internal1'', ''http://example.com/internal2''] = Some queue
         \<and> (0::int) \<le> 2 \<and> 2 \<le> int (length queue) \<and> int (length queue) \<le> 3)"
  using analyzeLinks_inaccessible_bounds[OF example_analyzeLinks] example_analyzeLinks
  by (simp add: example_collectLinks exampleConfig_def)

text \<open>
  C5. In every result of analyzeLinks, \<open>Internal + External\<close> is the number of selected
  hyperlinks whose href resolves against the base URL, and \<open>Internal\<close> is the number of
  those that resolve to the host of the base URL; an href that does not resolve is in
  neither count.
\<close>

theorem analyzeLinks_counts_resolved:
  assumes "analyzeLinks cfg w doc baseURL = Returns a"
  shows "Internal a + External a
           = int (length (filter (resolves w baseURL) (anchorsWithHref doc)))
         \<and> Internal a = int (length (filter (resolvesInternal w baseURL) (anchorsWithHref doc)))"
proof -
  note r = analyzeLinks_Returns[OF assms]
  have i: "Internal a = int (length (filter (resolvesInternal w baseURL) (anchorsWithHref doc)))"
    by (subst r(2)) (simp add: countInaccessible_eq collectLinks_counts)
  have e: "External a
      = int (length (filter (\<lambda>s. resolves w baseURL s \<and> \<not> resolvesInternal w baseURL s)
                      (anchorsWithHref doc)))"
    by (subst r(2)) (simp add: countInaccessible_eq collectLinks_counts)
  have "filter (resolvesInternal w baseURL) xs
        = filter (\<lambda>s. resolves w baseURL s \<and> resolvesInternal w baseURL s) xs" for xs
    by (rule filter_cong) (auto dest: resolvesInternal_resolves)
  then show ?thesis
    using i e length_filter_split[of "resolves w baseURL" "anchorsWithHref doc"
                "resolvesInternal w baseURL"]
    by simp
qed

theorem analyzeLinks_counts_resolved_witness:
  "analyzeLinks exampleConfig exampleWorld exampleDoc exampleBase
       = Returns \<lparr>Internal = 2, External = 2, Inaccessible = 2\<rparr>
   \<and> length (filter (resolves exampleWorld exampleBase) (anchorsWithHref exampleDoc)) = 4
   \<and> length (filter (resolvesInternal exampleWorld exampleBase) (anchorsWithHref exampleDoc)) = 2
   \<and> length (anchorsWithHref exampleDoc) = 5"
  using analyzeLinks_counts_resolved[OF example_analyzeLinks] example_analyzeLinks
  by (simp add: exampleDoc_def)

section \<open>Verification: the login-form heuristic\<close>

lemma foldl_submit:
  "foldl (\<lambda>formScore btn. if P btn then formScore + 2 else formScore) (n::int) btns
     = n + 2 * int (length (filter P btns))"
  by (induction btns arbitrary: n) auto

lemma foldl_count:
  "foldl (\<lambda>score s. if P s then score + 1 else score) (n::int) tags
     = n + int (length (filter P tags))"
  by (induction tags arbitrary: n) auto

lemma foldl_highest:
  "foldl (\<lambda>score f. if score < h f then h f else score) (n::int) fs = foldl max n (map h fs)"
  by (induction fs arbitrary: n) (auto simp: max_def)

text \<open>The score of a form is the sum of its seven factors.\<close>

lemma scoreForm_sum:
  "scoreForm U f =
     (if actionMatches U f then 3 else 0)
     + (if passwordInputs f \<noteq> [] then 4 else 0)
     + (if userInputs f \<noteq> [] then 3 else 0)
     + 2 * int (length (filter (submitMatches U) (submitControls f)))
     + (if filter (isRememberMe U f) (checkboxInputs f) \<noteq> [] then 2 else 0)
     + (if filter (isForgotPwd U) (anchors f) \<noteq> [] then 2 else 0)
     + (if filter (isOAuthButton U) (buttonsAndAnchors f) \<noteq> [] then 2 else 0)"
  unfolding scoreForm_def Let_def foldl_submit by simp

lemma loginScore_sum:
  "loginScore U doc =
     foldl max 0 (map (scoreForm U) (forms doc))
     + int (length (filter (hasAuthContent U) (authTags doc)))"
  unfolding loginScore_def Let_def foldl_highest foldl_count by simp

lemmas scoring_eval = scoreForm_sum actionMatches_def submitMatches_def isRememberMe_def
  isForgotPwd_def isOAuthButton_def providers_def hasAuthContent_def Attr_def ToLower_def
  isASCIIByte_def isUpperByte_def Let_def

lemmas scenario_defs = scenarioD_def scenarioD_action_def scenarioD_submit_def
  scenarioD_remember_def scenarioD_forgot_def scenarioD_oauth_def scenarioD_more_def
  usernameInput_def passwordInput_def loginButton_def signInInput_def rememberCheckbox_def
  forgotLink_def googleButton_def authMeta_def keepCheckbox_def keepLabel_def

lemma scoreForm_scenarioD: "scoreForm U scenarioD = 9"
  by (simp add: scoring_eval scenario_defs)

lemma scoreForm_scenarioD_action: "scoreForm U scenarioD_action = 12"
  by (simp add: scoring_eval scenario_defs)

lemma scoreForm_scenarioD_submit: "scoreForm U scenarioD_submit = 11"
  by (simp add: scoring_eval scenario_defs)

lemma scoreForm_scenarioD_remember: "scoreForm U scenarioD_remember = 11"
  by (simp add: scoring_eval scenario_defs)

lemma scoreForm_scenarioD_forgot: "scoreForm U scenarioD_forgot = 11"
  by (simp add: scoring_eval scenario_defs)

lemma scoreForm_scenarioD_oauth: "scoreForm U scenarioD_oauth = 11"
  by (simp add: scoring_eval scenario_defs)

lemma scoreForm_scenarioD_more: "scoreForm U scenarioD_more = 16"
  by (simp add: scoring_eval scenario_defs)

lemma hasAuthContent_authMeta: "hasAuthContent U authMeta"
  by (simp add: scoring_eval scenario_defs)

lemma loginScore_single:
  "loginScore U (page [f] tags)
     = max 0 (scoreForm U f) + int (length (filter (hasAuthContent U) tags))"
  by (simp add: loginScore_sum page_def)

lemma detect_single:
  "detectLoginForm U (page [f] tags)
     = (10 \<le> max 0 (scoreForm U f) + int (length (filter (hasAuthContent U) tags)))"
  by (simp add: detectLoginForm_def loginScore_single)

text \<open>
  C6. The form of scenario D (a text username field, a password field, a submit button
  labelled Login, nothing else) scores 4 + 3 + 2 = 9, below the threshold 10, and a page
  holding only this form has no login form. With an action containing \<open>login\<close> the form
  scores 12; with a second matching submit control, a remember-me checkbox, a
  forgot-password link or an OAuth button it scores 11; with one auth meta tag on the page
  the score is 10. In each of these cases the page has a login form.
\<close>

theorem scenarioD_scores:
  "scoreForm U scenarioD = 4 + 3 + 2
   \<and> \<not> detectLoginForm U (page [scenarioD] [])
   \<and> scoreForm U scenarioD_action = 9 + 3
   \<and> detectLoginForm U (page [scenarioD_action] [])
   \<and> scoreForm U scenarioD_submit = 9 + 2
   \<and> detectLoginForm U (page [scenarioD_submit] [])
   \<and> scoreForm U scenarioD_remember = 9 + 2
   \<and> detectLoginForm U (page [scenarioD_remember] [])
   \<and> scoreForm U scenarioD_forgot = 9 + 2
   \<and> detectLoginForm U (page [scenarioD_forgot] [])
   \<and> scoreForm U scenarioD_oauth = 9 + 2
   \<and> detectLoginForm U (page [scenarioD_oauth] [])
   \<and> loginScore U (page [scenarioD] [authMeta]) = 9 + 1
   \<and> detectLoginForm U (page [scenarioD] [authMeta])"
  by (simp add: detect_single loginScore_single scoreForm_scenarioD scoreForm_scenarioD_action
        scoreForm_scenarioD_submit scoreForm_scenarioD_remember scoreForm_scenarioD_forgot
        scoreForm_scenarioD_oauth hasAuthContent_authMeta)

lemma subseq_filter_length:
  "subseq xs ys \<Longrightarrow> length (filter P xs) \<le> length (filter P ys)"
  by (intro list_emb_length[where P = "(=)"] subseq_filter)

lemma subseq_filter_nonempty:
  "subseq xs ys \<Longrightarrow> filter P xs \<noteq> [] \<Longrightarrow> filter P ys \<noteq> []"
  using subseq_filter_length[of xs ys P] by (cases "filter P ys") auto

lemma isRememberMe_labels:
  assumes "\<And>labelFor. Attr s ''id'' = Some labelFor \<Longrightarrow> labelsFor g labelFor = labelsFor f labelFor"
  shows "isRememberMe U g s = isRememberMe U f s"
proof (cases "Attr s ''id''")
  case None
  then show ?thesis by (simp add: isRememberMe_def)
next
  case (Some labelFor)
  with assms[OF Some] show ?thesis by (simp add: isRememberMe_def)
qed

lemma rememberMe_kept:
  assumes c: "subseq (checkboxInputs f) (checkboxInputs g)"
    and l: "\<forall>s \<in> set (checkboxInputs f). \<forall>labelFor.
              Attr s ''id'' = Some labelFor \<longrightarrow> labelsFor g labelFor = labelsFor f labelFor"
    and r: "filter (isRememberMe U f) (checkboxInputs f) \<noteq> []"
  shows "filter (isRememberMe U g) (checkboxInputs g) \<noteq> []"
proof -
  from r obtain s where s: "s \<in> set (checkboxInputs f)" "isRememberMe U f s"
    by (auto simp: filter_empty_conv)
  from s(1) l have "isRememberMe U g s = isRememberMe U f s"
    by (intro isRememberMe_labels) blast
  moreover from c s(1) have "s \<in> set (checkboxInputs g)"
    by (auto elim: list_emb_set)
  ultimately show ?thesis using s(2) by (auto simp: filter_empty_conv)
qed

text \<open>Adding elements adds signals.\<close>

lemma addsElements_addsSignals:
  assumes "addsElements U f g"
  shows "addsSignals U f g"
proof -
  from assms have a: "actionMatches U f \<Longrightarrow> actionMatches U g"
    and p: "subseq (passwordInputs f) (passwordInputs g)"
    and u: "subseq (userInputs f) (userInputs g)"
    and s: "subseq (submitControls f) (submitControls g)"
    and c: "subseq (checkboxInputs f) (checkboxInputs g)"
    and l: "\<forall>s \<in> set (checkboxInputs f). \<forall>labelFor.
              Attr s ''id'' = Some labelFor \<longrightarrow> labelsFor g labelFor = labelsFor f labelFor"
    and n: "subseq (anchors f) (anchors g)"
    and b: "subseq (buttonsAndAnchors f) (buttonsAndAnchors g)"
    by (simp_all add: addsElements_def)
  show ?thesis
    unfolding addsSignals_def
    using a subseq_filter_nonempty[OF p, of "\<lambda>x. True"]
      subseq_filter_nonempty[OF u, of "\<lambda>x. True"]
      subseq_filter_length[OF s, of "submitMatches U"]
      rememberMe_kept[OF c l]
      subseq_filter_nonempty[OF n, of "isForgotPwd U"]
      subseq_filter_nonempty[OF b, of "isOAuthButton U"]
    by simp
qed

lemma scoreForm_mono:
  assumes "addsSignals U f g"
  shows "scoreForm U f \<le> scoreForm U g"
proof -
  from assms have 1: "(if actionMatches U f then 3 else 0)
        \<le> (if actionMatches U g then 3 else (0::int))"
    by (simp add: addsSignals_def)
  from assms have 2: "(if passwordInputs f \<noteq> [] then 4 else 0)
        \<le> (if passwordInputs g \<noteq> [] then 4 else (0::int))"
    by (simp add: addsSignals_def)
  from assms have 3: "(if userInputs f \<noteq> [] then 3 else 0)
        \<le> (if userInputs g \<noteq> [] then 3 else (0::int))"
    by (simp add: addsSignals_def)
  from assms have 4: "2 * int (length (filter (submitMatches U) (submitControls f)))
        \<le> 2 * int (length (filter (submitMatches U) (submitControls g)))"
    by (simp add: addsSignals_def)
  from assms have 5: "(if filter (isRememberMe U f) (checkboxInputs f) \<noteq> [] then 2 else 0)
        \<le> (if filter (isRememberMe U g) (checkboxInputs g) \<noteq> [] then 2 else (0::int))"
    by (simp add: addsSignals_def)
  from assms have 6: "(if filter (isForgotPwd U) (anchors f) \<noteq> [] then 2 else 0)
        \<le> (if filter (isForgotPwd U) (anchors g) \<noteq> [] then 2 else (0::int))"
    by (simp add: addsSignals_def)
  from assms have 7: "(if filter (isOAuthButton U) (buttonsAndAnchors f) \<noteq> [] then 2 else 0)
        \<le> (if filter (isOAuthButton U) (buttonsAndAnchors g) \<noteq> [] then 2 else (0::int))"
    by (simp add: addsSignals_def)
  show ?thesis
    unfolding scoreForm_sum using 1 2 3 4 5 6 7 by linarith
qed

lemma foldl_max_mono:
  "(m::int) \<le> n \<Longrightarrow> foldl max m xs \<le> foldl max n xs"
  by (induction xs arbitrary: m n) (auto simp: max_def)

lemma foldl_max_replace:
  "(x::int) \<le> y \<Longrightarrow> foldl max n (pre @ x # post) \<le> foldl max n (pre @ y # post)"
  by (simp add: foldl_max_mono)

text \<open>
  C7. When a form gains signals (\<open>addsSignals\<close>: every signal it had is still there, and
  possibly more), its score does not decrease; hence, in any document, the login score
  does not decrease when the form is replaced by the form with the added signals, and a
  document that had a login form still has one.
\<close>

theorem login_score_monotonic:
  assumes "addsSignals U f g"
  shows "scoreForm U f \<le> scoreForm U g
         \<and> loginScore U (doc\<lparr>forms := pre @ f # post\<rparr>)
             \<le> loginScore U (doc\<lparr>forms := pre @ g # post\<rparr>)
         \<and> (detectLoginForm U (doc\<lparr>forms := pre @ f # post\<rparr>)
              \<longrightarrow> detectLoginForm U (doc\<lparr>forms := pre @ g # post\<rparr>))"
proof -
  note m = scoreForm_mono[OF assms]
  have "foldl max 0 (map (scoreForm U) (pre @ f # post))
      \<le> foldl max 0 (map (scoreForm U) (pre @ g # post))"
    using foldl_max_replace[OF m, of 0 "map (scoreForm U) pre" "map (scoreForm U) post"] by simp
  then have l: "loginScore U (doc\<lparr>forms := pre @ f # post\<rparr>)
      \<le> loginScore U (doc\<lparr>forms := pre @ g # post\<rparr>)"
    by (simp add: loginScore_sum)
  from m l show ?thesis by (simp add: detectLoginForm_def)
qed

theorem login_score_monotonic_witness:
  "\<forall>U. addsSignals U scenarioD_action scenarioD_more
     \<and> scoreForm U scenarioD_action = 12
     \<and> scoreForm U scenarioD_more = 16
     \<and> detectLoginForm U ((page [] [])\<lparr>forms := [] @ scenarioD_action # []\<rparr>)
     \<and> detectLoginForm U ((page [] [])\<lparr>forms := [] @ scenarioD_more # []\<rparr>)"
proof
  fix U
  have "addsElements U scenarioD_action scenarioD_more"
    by (simp add: addsElements_def actionMatches_def scenarioD_more_def scenarioD_action_def
          scenarioD_def)
  then have a: "addsSignals U scenarioD_action scenarioD_more"
    by (rule addsElements_addsSignals)
  have d: "detectLoginForm U ((page [] [])\<lparr>forms := [] @ scenarioD_action # []\<rparr>)"
    by (simp add: detectLoginForm_def loginScore_sum page_def scoreForm_scenarioD_action)
  from login_score_monotonic[OF a, where doc = "page [] []" and pre = "[]" and post = "[]"] d
  show "addsSignals U scenarioD_action scenarioD_more
     \<and> scoreForm U scenarioD_action = 12
     \<and> scoreForm U scenarioD_more = 16
     \<and> detectLoginForm U ((page [] [])\<lparr>forms := [] @ scenarioD_action # []\<rparr>)
     \<and> detectLoginForm U ((page [] [])\<lparr>forms := [] @ scenarioD_more # []\<rparr>)"
    using a by (simp add: scoreForm_scenarioD_action scoreForm_scenarioD_more)
qed

text \<open>
  C10. The login score is the highest form score (0 when there is no form) plus the
  number of selected meta or link tags whose content holds \<open>auth\<close>. So a document with
  no form and at least ten such tags has a login form.
\<close>

theorem login_without_form:
  "loginScore U doc
     = foldl max 0 (map (scoreForm U) (forms doc))
       + int (length (filter (hasAuthContent U) (authTags doc)))
   \<and> (forms doc = [] \<and> 10 \<le> length (filter (hasAuthContent U) (authTags doc))
        \<longrightarrow> loginScore U doc = int (length (filter (hasAuthContent U) (authTags doc)))
            \<and> detectLoginForm U doc)"
  by (simp add: detectLoginForm_def loginScore_sum)

theorem login_without_form_witness:
  "\<forall>U. forms (page [] (replicate 10 authMeta)) = []
     \<and> 10 \<le> length (filter (hasAuthContent U) (authTags (page [] (replicate 10 authMeta))))
     \<and> loginScore U (page [] (replicate 10 authMeta)) = 10
     \<and> detectLoginForm U (page [] (replicate 10 authMeta))"
proof
  fix U
  have f: "forms (page [] (replicate 10 authMeta)) = []" by (simp add: page_def)
  have "filter (hasAuthContent U) (replicate 10 authMeta) = replicate 10 authMeta"
    by (simp add: hasAuthContent_authMeta)
  then have n: "length (filter (hasAuthContent U) (authTags (page [] (replicate 10 authMeta)))) = 10"
    by (simp add: page_def)
  from login_without_form[of U "page [] (replicate 10 authMeta)"] n f
  show "forms (page [] (replicate 10 authMeta)) = []
     \<and> 10 \<le> length (filter (hasAuthContent U) (authTags (page [] (replicate 10 authMeta))))
     \<and> loginScore U (page [] (replicate 10 authMeta)) = 10
     \<and> detectLoginForm U (page [] (replicate 10 authMeta))"
    by simp
qed

section \<open>Verification: fetching and orchestration\<close>

text \<open>
  C8. fetchWebpage returns the body exactly when a response arrives, its status code is
  200 and its body is read without error; then the result is that body. A response with
  any other status code makes it fail with the error that carries the status code.
\<close>

theorem fetchWebpage_status:
  "(fetchWebpage w targetURL = Inr body
      \<longleftrightarrow> (\<exists>resp. http_Get w targetURL = Inr resp \<and> StatusCode resp = StatusOK
                  \<and> Body resp = Inr body))
   \<and> (\<forall>resp. http_Get w targetURL = Inr resp \<and> StatusCode resp \<noteq> StatusOK
         \<longrightarrow> fetchWebpage w targetURL = Inl (StatusCodeError (StatusCode resp)))"
  by (auto simp: fetchWebpage_def split: sum.splits)

theorem fetchWebpage_status_witness:
  "fetchWebpage (exampleWorld\<lparr>http_Get := (\<lambda>targetURL. Inr \<lparr>StatusCode = 404, Body = Inr []\<rparr>)\<rparr>)
       ''http://example.com'' = Inl (StatusCodeError 404)
   \<and> fetchWebpage exampleWorld ''http://example.com'' = Inr ''<!DOCTYPE html>''"
proof -
  let ?w = "exampleWorld\<lparr>http_Get := (\<lambda>targetURL. Inr \<lparr>StatusCode = 404, Body = Inr []\<rparr>)\<rparr>"
  note t1 = fetchWebpage_status[of ?w "''http://example.com''" "[]", THEN conjunct2,
              rule_format, of "\<lparr>StatusCode = 404, Body = Inr []\<rparr>"]
  have a: "fetchWebpage ?w ''http://example.com'' = Inl (StatusCodeError 404)"
    using t1 by simp
  note t2 = fetchWebpage_status[of exampleWorld "''http://example.com''" "''<!DOCTYPE html>''",
              THEN conjunct1]
  have b: "fetchWebpage exampleWorld ''http://example.com'' = Inr ''<!DOCTYPE html>''"
    unfolding t2 by (simp add: exampleWorld_def)
  from a b show ?thesis by simp
qed

text \<open>
  A response with status 200 whose body cannot be read to its end: the status is 200 and
  the fetch fails.
\<close>

theorem fetchWebpage_status_counterexample:
  "\<not> (\<forall>w targetURL resp. http_Get w targetURL = Inr resp \<longrightarrow>
         ((\<exists>body. fetchWebpage w targetURL = Inr body) \<longleftrightarrow> StatusCode resp = StatusOK))"
proof
  let ?resp = "\<lparr>StatusCode = 200, Body = Inl (LibraryError ''unexpected EOF'')\<rparr>"
  let ?w = "exampleWorld\<lparr>http_Get := (\<lambda>targetURL. Inr ?resp)\<rparr>"
  assume a: "\<forall>w targetURL resp. http_Get w targetURL = Inr resp \<longrightarrow>
         ((\<exists>body. fetchWebpage w targetURL = Inr body) \<longleftrightarrow> StatusCode resp = StatusOK)"
  have "\<exists>body. fetchWebpage ?w ''http://example.com'' = Inr body"
    using a[rule_format, of ?w "''http://example.com''" ?resp] by simp
  moreover have "fetchWebpage ?w ''http://example.com''
      = Inl (ReadBodyFailed (LibraryError ''unexpected EOF''))"
    by (simp add: fetchWebpage_def)
  ultimately show False by simp
qed

lemma Analyze_hit:
  "cacheHit w targetURL \<Longrightarrow> \<exists>result. Analyze cfg w targetURL = Returns (Inr result)"
  by (auto simp: cacheHit_def Analyze_def split: prod.splits option.splits)

lemma Analyze_miss:
  "\<not> cacheHit w targetURL \<Longrightarrow>
   Analyze cfg w targetURL =
     (case parseAndValidateURL w targetURL of
        Inl err \<Rightarrow> Returns (Inl err)
      | Inr parsedURL \<Rightarrow>
          (case fetchWebpage w targetURL of
             Inl err \<Rightarrow> Returns (Inl err)
           | Inr htmlContent \<Rightarrow>
               (case parseHTML w htmlContent of
                  Inl err \<Rightarrow> Returns (Inl err)
                | Inr doc \<Rightarrow>
                    (case performWebpageAnalysis cfg w targetURL htmlContent doc parsedURL of
                       Panics \<Rightarrow> Panics
                     | Blocks \<Rightarrow> Blocks
                     | Returns result \<Rightarrow> Returns (Inr result)))))"
  by (simp add: cacheHit_def Analyze_def Let_def
           split: prod.splits option.splits sum.splits outcome.splits)

lemma example_validate:
  "parseAndValidateURL exampleWorld ''http://example.com'' = Inr exampleBase"
  by (simp add: parseAndValidateURL_def exampleWorld_def exampleBase_def)

lemma example_not_hit: "\<not> cacheHit exampleWorld targetURL"
  by (simp add: cacheHit_def exampleWorld_def)

text \<open>
  C9. Analyze returns an error exactly when the cache gives no hit and URL validation
  fails, or the fetch fails, or the parser of the fetched text fails; the error is the one
  of that step. What the cache returns matters only through whether it is a hit, and the
  probes of the links do not matter at all: neither a cache error nor a failed probe makes
  Analyze return an error.
\<close>

theorem Analyze_failure_paths:
  "Analyze cfg w targetURL = Returns (Inl err)
     \<longleftrightarrow> \<not> cacheHit w targetURL
         \<and> (parseAndValidateURL w targetURL = Inl err
            \<or> (\<exists>parsedURL. parseAndValidateURL w targetURL = Inr parsedURL
                  \<and> fetchWebpage w targetURL = Inl err)
            \<or> (\<exists>parsedURL htmlContent. parseAndValidateURL w targetURL = Inr parsedURL
                  \<and> fetchWebpage w targetURL = Inr htmlContent
                  \<and> parseHTML w htmlContent = Inl err))"
proof (cases "cacheHit w targetURL")
  case True
  then show ?thesis using Analyze_hit[OF True, of cfg] by auto
next
  case False
  show ?thesis
  proof (cases "parseAndValidateURL w targetURL")
    case (Inl e)
    then show ?thesis using False by (auto simp: Analyze_miss)
  next
    case p: (Inr parsedURL)
    show ?thesis
    proof (cases "fetchWebpage w targetURL")
      case (Inl e)
      then show ?thesis using False p by (auto simp: Analyze_miss)
    next
      case f: (Inr htmlContent)
      show ?thesis
      proof (cases "parseHTML w htmlContent")
        case (Inl e)
        then show ?thesis using False p f by (auto simp: Analyze_miss)
      next
        case d: (Inr doc)
        then show ?thesis using False p f
          by (cases "performWebpageAnalysis cfg w targetURL htmlContent doc parsedURL")
             (auto simp: Analyze_miss)
      qed
    qed
  qed
qed

text \<open>
  In the example the cache fails on both calls and two probes fail: a target without
  scheme and host is refused by validation, and the page is analysed without error.
\<close>

theorem Analyze_failure_paths_witness:
  "Analyze exampleConfig exampleWorld ''invalid-url'' = Returns (Inl MissingSchemeOrHost)
   \<and> (\<exists>result. Analyze exampleConfig exampleWorld ''http://example.com'' = Returns (Inr result)
         \<and> Links result = \<lparr>Internal = 2, External = 2, Inaccessible = 2\<rparr>)
   \<and> fst (cache_Get exampleWorld ''http://example.com'') = None
   \<and> snd (cache_Get exampleWorld ''http://example.com'') \<noteq> None
   \<and> (\<forall>result. cache_Set exampleWorld ''http://example.com'' result \<noteq> None)"
proof -
  have "parseAndValidateURL exampleWorld ''invalid-url'' = Inl MissingSchemeOrHost"
    by (simp add: parseAndValidateURL_def exampleWorld_def)
  then have 1: "Analyze exampleConfig exampleWorld ''invalid-url'' = Returns (Inl MissingSchemeOrHost)"
    using Analyze_failure_paths[of exampleConfig exampleWorld "''invalid-url''" MissingSchemeOrHost]
      example_not_hit by simp
  have f: "fetchWebpage exampleWorld ''http://example.com'' = Inr ''<!DOCTYPE html>''"
    by (simp add: fetchWebpage_def exampleWorld_def)
  have p: "parseHTML exampleWorld ''<!DOCTYPE html>'' = Inr exampleDoc"
    by (simp add: parseHTML_def exampleWorld_def)
  have 2: "\<exists>result. Analyze exampleConfig exampleWorld ''http://example.com'' = Returns (Inr result)
         \<and> Links result = \<lparr>Internal = 2, External = 2, Inaccessible = 2\<rparr>"
    by (simp add: Analyze_miss[OF example_not_hit] example_validate f p
          performWebpageAnalysis_def example_analyzeLinks)
  have 3: "fst (cache_Get exampleWorld ''http://example.com'') = None
   \<and> snd (cache_Get exampleWorld ''http://example.com'') \<noteq> None
   \<and> (\<forall>result. cache_Set exampleWorld ''http://example.com'' result \<noteq> None)"
    by (simp add: exampleWorld_def)
  from 1 2 3 show ?thesis by simp
qed

text \<open>
  When the parser returns an error, Analyze returns it, although validation and fetch
  have succeeded.
\<close>

theorem Analyze_failure_paths_counterexample:
  "\<not> (\<forall>cfg w targetURL err. Analyze cfg w targetURL = Returns (Inl err) \<longrightarrow>
         parseAndValidateURL w targetURL = Inl err \<or> fetchWebpage w targetURL = Inl err)"
proof
  let ?e = "LibraryError ''read error''"
  let ?w = "exampleWorld\<lparr>NewDocumentFromReader := (\<lambda>htmlContent. Inl ?e)\<rparr>"
  let ?u = "''http://example.com''"
  assume a: "\<forall>cfg w targetURL err. Analyze cfg w targetURL = Returns (Inl err) \<longrightarrow>
         parseAndValidateURL w targetURL = Inl err \<or> fetchWebpage w targetURL = Inl err"
  have v: "parseAndValidateURL ?w ?u = Inr exampleBase"
    by (simp add: parseAndValidateURL_def exampleWorld_def exampleBase_def)
  have f: "fetchWebpage ?w ?u = Inr ''<!DOCTYPE html>''"
    by (simp add: fetchWebpage_def exampleWorld_def)
  have p: "parseHTML ?w ''<!DOCTYPE html>'' = Inl (ParseHTMLFailed ?e)"
    by (simp add: parseHTML_def)
  have n: "\<not> cacheHit ?w ?u"
    by (simp add: cacheHit_def exampleWorld_def)
  have "Analyze exampleConfig ?w ?u = Returns (Inl (ParseHTMLFailed ?e))"
    by (simp add: Analyze_miss[OF n] v f p)
  from a[rule_format, OF this] v f show False by simp
qed

end
